theory Spec2Isabelle
  imports Main "HOL-Library.Word" "HOL-Library.Sublist"
begin

text \<open>
  The two streaming parsers of the front end, \<open>parseStreamingChunk\<close> of
  strandsParser.js (Converse events of a Strands agent) and \<open>parseStreamingChunk\<close> of the
  LangGraph parser (AIMessageChunk messages), as functions from one line of the stream,
  the text accumulated so far and the update callback to what the call returns and what
  it does to the callback. The JavaScript they rest on is modelled first: strings,
  JSON.parse, property access, truthiness and string conversion.
\<close>

section \<open>JavaScript strings\<close>

text \<open>
  A JavaScript string is a sequence of 16-bit code units. \<open>js\<close> turns an ASCII literal
  into such a sequence. \<open>trim\<close> removes the ECMAScript WhiteSpace and LineTerminator code
  units from both ends; \<open>startsWith\<close> and \<open>substring\<close> are the String.prototype methods
  the two parsers call (with one argument each).
\<close>

type_synonym code_unit = "16 word"
type_synonym jsstring = "code_unit list"

definition js :: "string \<Rightarrow> jsstring" where
  "js s = map (\<lambda>c. of_nat (of_char c)) s"

definition is_white_space :: "code_unit \<Rightarrow> bool" where
  "is_white_space c \<longleftrightarrow>
     c \<in> set [0x09, 0x0A, 0x0B, 0x0C, 0x0D, 0x20, 0xA0, 0x1680,
              0x2028, 0x2029, 0x202F, 0x205F, 0x3000, 0xFEFF]
     \<or> (0x2000 \<le> c \<and> c \<le> 0x200A)"

definition trim :: "jsstring \<Rightarrow> jsstring" where
  "trim s = rev (dropWhile is_white_space (rev (dropWhile is_white_space s)))"

definition startsWith :: "jsstring \<Rightarrow> jsstring \<Rightarrow> bool" where
  "startsWith s p \<longleftrightarrow> take (length p) s = p"

definition substring :: "jsstring \<Rightarrow> nat \<Rightarrow> jsstring" where
  "substring s n = drop n s"

section \<open>JSON.parse\<close>

text \<open>
  The values JSON.parse can produce. A number keeps its lexeme: its value is an IEEE
  double, and the two conversions of it that the parsers can reach are parameters of
  the model (see \<open>number_ops\<close> below). An object keeps its members in the order of the
  text; a later duplicate key overrides an earlier one when a property is read.
\<close>

datatype json =
    JNull
  | JBool bool
  | JNumber jsstring
  | JString jsstring
  | JArray "json list"
  | JObject "(jsstring \<times> json) list"

datatype js_exception = SyntaxError | TypeError | CallbackError

datatype 'a parse = Parsed 'a jsstring | Malformed | OutOfFuel

definition is_json_ws :: "code_unit \<Rightarrow> bool" where
  "is_json_ws c \<longleftrightarrow> c = 0x09 \<or> c = 0x0A \<or> c = 0x0D \<or> c = 0x20"

definition skip_ws :: "jsstring \<Rightarrow> jsstring" where
  "skip_ws s = dropWhile is_json_ws s"

definition is_digit :: "code_unit \<Rightarrow> bool" where
  "is_digit c \<longleftrightarrow> 0x30 \<le> c \<and> c \<le> 0x39"

definition hex_value :: "code_unit \<Rightarrow> code_unit option" where
  "hex_value c =
     (if 0x30 \<le> c \<and> c \<le> 0x39 then Some (c - 0x30)
      else if 0x41 \<le> c \<and> c \<le> 0x46 then Some (c - 0x41 + 10)
      else if 0x61 \<le> c \<and> c \<le> 0x66 then Some (c - 0x61 + 10)
      else None)"

definition unescape :: "code_unit \<Rightarrow> code_unit option" where
  "unescape e =
     (if e = 0x22 then Some 0x22
      else if e = 0x5C then Some 0x5C
      else if e = 0x2F then Some 0x2F
      else if e = 0x62 then Some 0x08
      else if e = 0x66 then Some 0x0C
      else if e = 0x6E then Some 0x0A
      else if e = 0x72 then Some 0x0D
      else if e = 0x74 then Some 0x09
      else None)"

definition push :: "code_unit \<Rightarrow> (jsstring \<times> jsstring) option \<Rightarrow> (jsstring \<times> jsstring) option" where
  "push c r = (case r of None \<Rightarrow> None | Some (s, t) \<Rightarrow> Some (c # s, t))"

text \<open>The characters of a string literal after its opening quote, up to the closing one.\<close>

fun string_chars :: "jsstring \<Rightarrow> (jsstring \<times> jsstring) option" where
  "string_chars [] = None"
| "string_chars (c # cs) =
     (if c = 0x22 then Some ([], cs)
      else if c = 0x5C then
        (case cs of
           [] \<Rightarrow> None
         | e # r \<Rightarrow>
             if e = 0x75 then
               (case r of
                  h1 # h2 # h3 # h4 # r' \<Rightarrow>
                    (case hex_value h1 of None \<Rightarrow> None | Some a \<Rightarrow>
                     case hex_value h2 of None \<Rightarrow> None | Some b \<Rightarrow>
                     case hex_value h3 of None \<Rightarrow> None | Some c' \<Rightarrow>
                     case hex_value h4 of None \<Rightarrow> None | Some d \<Rightarrow>
                       push (((a * 16 + b) * 16 + c') * 16 + d) (string_chars r'))
                | _ \<Rightarrow> None)
             else (case unescape e of None \<Rightarrow> None | Some x \<Rightarrow> push x (string_chars r)))
      else if c < 0x20 then None
      else push c (string_chars cs))"

text \<open>The number grammar: \<open>-? (0 | [1-9][0-9]*) (. [0-9]+)? ([eE] [+-]? [0-9]+)?\<close>.\<close>

definition int_part :: "jsstring \<Rightarrow> (jsstring \<times> jsstring) option" where
  "int_part s =
     (case s of
        [] \<Rightarrow> None
      | c # cs \<Rightarrow>
          if c = 0x30 then Some ([c], cs)
          else if is_digit c then Some (c # takeWhile is_digit cs, dropWhile is_digit cs)
          else None)"

definition frac_part :: "jsstring \<Rightarrow> (jsstring \<times> jsstring) option" where
  "frac_part s =
     (case s of
        [] \<Rightarrow> Some ([], s)
      | c # cs \<Rightarrow>
          if c = 0x2E then
            (if takeWhile is_digit cs = [] then None
             else Some (c # takeWhile is_digit cs, dropWhile is_digit cs))
          else Some ([], s))"

definition exp_sign :: "jsstring \<Rightarrow> jsstring \<times> jsstring" where
  "exp_sign s =
     (case s of
        [] \<Rightarrow> ([], s)
      | d # ds \<Rightarrow> if d = 0x2B \<or> d = 0x2D then ([d], ds) else ([], s))"

definition exp_part :: "jsstring \<Rightarrow> (jsstring \<times> jsstring) option" where
  "exp_part s =
     (case s of
        [] \<Rightarrow> Some ([], s)
      | c # cs \<Rightarrow>
          if c = 0x65 \<or> c = 0x45 then
            (case exp_sign cs of (sg, r) \<Rightarrow>
               if takeWhile is_digit r = [] then None
               else Some (c # sg @ takeWhile is_digit r, dropWhile is_digit r))
          else Some ([], s))"

definition number_token :: "jsstring \<Rightarrow> (jsstring \<times> jsstring) option" where
  "number_token s =
     (case (case s of [] \<Rightarrow> ([], s) | c # cs \<Rightarrow> if c = 0x2D then ([c], cs) else ([], s)) of
        (sg, s1) \<Rightarrow>
          case int_part s1 of None \<Rightarrow> None | Some (i, s2) \<Rightarrow>
          case frac_part s2 of None \<Rightarrow> None | Some (f, s3) \<Rightarrow>
          case exp_part s3 of None \<Rightarrow> None | Some (e, s4) \<Rightarrow>
            Some (sg @ i @ f @ e, s4))"

text \<open>
  The recursive descent. The first argument bounds the depth of the recursion; \<open>JSON_parse\<close>
  starts it high enough that \<open>OutOfFuel\<close> never comes back (\<open>parse_value_fuel\<close> below),
  so that \<open>Malformed\<close> is exactly the SyntaxError of JSON.parse.
\<close>

fun parse_value :: "nat \<Rightarrow> jsstring \<Rightarrow> json parse"
  and parse_elements :: "nat \<Rightarrow> jsstring \<Rightarrow> json list parse"
  and parse_members :: "nat \<Rightarrow> jsstring \<Rightarrow> (jsstring \<times> json) list parse"
where
  "parse_value 0 s = OutOfFuel"
| "parse_value (Suc n) s =
     (case s of
        [] \<Rightarrow> Malformed
      | c # cs \<Rightarrow>
          if c = 0x5B then
            (case skip_ws cs of
               [] \<Rightarrow> Malformed
             | d # r \<Rightarrow>
                 if d = 0x5D then Parsed (JArray []) r
                 else (case parse_elements n (d # r) of
                         Parsed xs r' \<Rightarrow> Parsed (JArray xs) r'
                       | Malformed \<Rightarrow> Malformed
                       | OutOfFuel \<Rightarrow> OutOfFuel))
          else if c = 0x7B then
            (case skip_ws cs of
               [] \<Rightarrow> Malformed
             | d # r \<Rightarrow>
                 if d = 0x7D then Parsed (JObject []) r
                 else (case parse_members n (d # r) of
                         Parsed ms r' \<Rightarrow> Parsed (JObject ms) r'
                       | Malformed \<Rightarrow> Malformed
                       | OutOfFuel \<Rightarrow> OutOfFuel))
          else if c = 0x22 then
            (case string_chars cs of
               None \<Rightarrow> Malformed
             | Some (str, r) \<Rightarrow> Parsed (JString str) r)
          else if startsWith s (js ''true'') then Parsed (JBool True) (drop 4 s)
          else if startsWith s (js ''false'') then Parsed (JBool False) (drop 5 s)
          else if startsWith s (js ''null'') then Parsed JNull (drop 4 s)
          else (case number_token s of
                  None \<Rightarrow> Malformed
                | Some (lexeme, r) \<Rightarrow> Parsed (JNumber lexeme) r))"
| "parse_elements 0 s = OutOfFuel"
| "parse_elements (Suc n) s =
     (case parse_value n s of
        Malformed \<Rightarrow> Malformed
      | OutOfFuel \<Rightarrow> OutOfFuel
      | Parsed v r \<Rightarrow>
          (case skip_ws r of
             [] \<Rightarrow> Malformed
           | c # r' \<Rightarrow>
               if c = 0x5D then Parsed [v] r'
               else if c = 0x2C then
                 (case parse_elements n (skip_ws r') of
                    Parsed vs r'' \<Rightarrow> Parsed (v # vs) r''
                  | Malformed \<Rightarrow> Malformed
                  | OutOfFuel \<Rightarrow> OutOfFuel)
               else Malformed))"
| "parse_members 0 s = OutOfFuel"
| "parse_members (Suc n) s =
     (case s of
        [] \<Rightarrow> Malformed
      | q # cs \<Rightarrow>
          if q \<noteq> 0x22 then Malformed
          else
            (case string_chars cs of
               None \<Rightarrow> Malformed
             | Some (key, r) \<Rightarrow>
                 (case skip_ws r of
                    [] \<Rightarrow> Malformed
                  | c # r1 \<Rightarrow>
                      if c \<noteq> 0x3A then Malformed
                      else
                        (case parse_value n (skip_ws r1) of
                           Malformed \<Rightarrow> Malformed
                         | OutOfFuel \<Rightarrow> OutOfFuel
                         | Parsed v r2 \<Rightarrow>
                             (case skip_ws r2 of
                                [] \<Rightarrow> Malformed
                              | d # r3 \<Rightarrow>
                                  if d = 0x7D then Parsed [(key, v)] r3
                                  else if d = 0x2C then
                                    (case parse_members n (skip_ws r3) of
                                       Parsed ms r4 \<Rightarrow> Parsed ((key, v) # ms) r4
                                     | Malformed \<Rightarrow> Malformed
                                     | OutOfFuel \<Rightarrow> OutOfFuel)
                                  else Malformed)))))"

definition JSON_parse :: "jsstring \<Rightarrow> js_exception + json" where
  "JSON_parse s =
     (case parse_value (2 * length s + 2) (skip_ws s) of
        Parsed v r \<Rightarrow> if skip_ws r = [] then Inr v else Inl SyntaxError
      | Malformed \<Rightarrow> Inl SyntaxError
      | OutOfFuel \<Rightarrow> Inl SyntaxError)"

section \<open>The JavaScript operations the parsers use\<close>

text \<open>
  A JavaScript value here is a decoded JSON value or \<open>undefined\<close> (\<open>None\<close>), which is
  what reading an absent property gives.

  \<open>property\<close> reads a property of a value that is neither \<open>null\<close> nor \<open>undefined\<close>. It
  is used only with the names \<open>event\<close>, \<open>messageStart\<close>, \<open>role\<close>, \<open>contentBlockDelta\<close>,
  \<open>delta\<close>, \<open>text\<close>, \<open>type\<close> and \<open>content\<close>: none of them is a property of the built-in
  prototypes, so only an object decoded from the text can have one, and a boolean, a
  number, a string or an array gives \<open>undefined\<close>. \<open>member v k\<close> is \<open>v.k\<close>, which throws a
  TypeError on \<open>null\<close> and \<open>undefined\<close>; \<open>optional_member v k\<close> is \<open>v?.k\<close>.
\<close>

type_synonym jsvalue = "json option"

definition property :: "json \<Rightarrow> jsstring \<Rightarrow> jsvalue" where
  "property v k = (case v of JObject ms \<Rightarrow> map_of (rev ms) k | _ \<Rightarrow> None)"

definition member :: "jsvalue \<Rightarrow> jsstring \<Rightarrow> js_exception + jsvalue" where
  "member v k =
     (case v of
        None \<Rightarrow> Inl TypeError
      | Some j \<Rightarrow> (case j of JNull \<Rightarrow> Inl TypeError | _ \<Rightarrow> Inr (property j k)))"

definition optional_member :: "jsvalue \<Rightarrow> jsstring \<Rightarrow> jsvalue" where
  "optional_member v k =
     (case v of
        None \<Rightarrow> None
      | Some j \<Rightarrow> (case j of JNull \<Rightarrow> None | _ \<Rightarrow> property j k))"

text \<open>
  The value of a JSON number is an IEEE double. Whether it is zero (an underflowing
  lexeme such as \<open>1e-400\<close> is) and how it prints (Number::toString) are floating-point
  questions outside this development; both are parameters, given the lexeme.
\<close>

record number_ops =
  number_is_zero :: "jsstring \<Rightarrow> bool"
  number_to_string :: "jsstring \<Rightarrow> jsstring"

text \<open>ToBoolean, the truthiness test of \<open>if\<close>, \<open>&&\<close> and \<open>filter\<close>.\<close>

definition to_boolean :: "number_ops \<Rightarrow> jsvalue \<Rightarrow> bool" where
  "to_boolean N v =
     (case v of
        None \<Rightarrow> False
      | Some j \<Rightarrow>
          (case j of
             JNull \<Rightarrow> False
           | JBool b \<Rightarrow> b
           | JNumber lexeme \<Rightarrow> \<not> number_is_zero N lexeme
           | JString s \<Rightarrow> s \<noteq> []
           | JArray xs \<Rightarrow> True
           | JObject ms \<Rightarrow> True))"

text \<open>
  ToString. An array prints as its elements joined by commas, \<open>null\<close> elements as the
  empty string. A decoded object prints as \<open>[object Object]\<close> through
  Object.prototype.toString, unless the text gave it a member named \<open>toString\<close>: that
  member is not callable and hides the inherited method, the inherited \<open>valueOf\<close> returns
  the object itself, and the conversion throws a TypeError.
\<close>

fun to_string :: "number_ops \<Rightarrow> json \<Rightarrow> js_exception + jsstring"
  and join_elements :: "number_ops \<Rightarrow> json list \<Rightarrow> js_exception + jsstring"
where
  "to_string N JNull = Inr (js ''null'')"
| "to_string N (JBool b) = Inr (if b then js ''true'' else js ''false'')"
| "to_string N (JNumber lexeme) = Inr (number_to_string N lexeme)"
| "to_string N (JString s) = Inr s"
| "to_string N (JArray xs) = join_elements N xs"
| "to_string N (JObject ms) =
     (if js ''toString'' \<in> set (map fst ms) then Inl TypeError
      else Inr (js ''[object Object]''))"
| "join_elements N [] = Inr []"
| "join_elements N (x # xs) =
     (case (case x of JNull \<Rightarrow> Inr [] | _ \<Rightarrow> to_string N x) of
        Inl e \<Rightarrow> Inl e
      | Inr s \<Rightarrow>
          if xs = [] then Inr s
          else (case join_elements N xs of
                  Inl e \<Rightarrow> Inl e
                | Inr r \<Rightarrow> Inr (s @ js '','' @ r)))"

text \<open>Array.prototype.join on a list of values, with its separator.\<close>

fun join :: "number_ops \<Rightarrow> jsstring \<Rightarrow> jsvalue list \<Rightarrow> js_exception + jsstring" where
  "join N sep [] = Inr []"
| "join N sep (v # vs) =
     (case (case v of
              None \<Rightarrow> Inr []
            | Some j \<Rightarrow> (case j of JNull \<Rightarrow> Inr [] | _ \<Rightarrow> to_string N j)) of
        Inl e \<Rightarrow> Inl e
      | Inr s \<Rightarrow>
          if vs = [] then Inr s
          else (case join N sep vs of
                  Inl e \<Rightarrow> Inl e
                | Inr r \<Rightarrow> Inr (s @ sep @ r)))"

text \<open>\<open>s + v\<close> with a string on the left: the concatenation of \<open>s\<close> and the string of \<open>v\<close>.\<close>

definition string_plus :: "number_ops \<Rightarrow> jsstring \<Rightarrow> jsvalue \<Rightarrow> js_exception + jsstring" where
  "string_plus N s v =
     (case v of
        None \<Rightarrow> Inr (s @ js ''undefined'')
      | Some j \<Rightarrow> (case to_string N j of Inl e \<Rightarrow> Inl e | Inr t \<Rightarrow> Inr (s @ t)))"

section \<open>The update callback and the outcome of a call\<close>

text \<open>
  The callback is any JavaScript function that finishes: what a parser can observe of
  it is whether a call of it returns or throws. What the callback observes of a parser is
  the list of arguments it was called with, \<open>calls\<close>. A call of a parser ends in
  \<open>result\<close>: \<open>Inr s\<close> when it returns the string \<open>s\<close>, \<open>Inl e\<close> when the exception
  \<open>e\<close> leaves it. \<open>debug_log\<close> is what went to \<open>console.debug\<close>.
\<close>

datatype cb_result = Returns | Throws

type_synonym callback = "jsstring \<Rightarrow> cb_result"

record outcome =
  result :: "js_exception + jsstring"
  calls :: "jsstring list"
  debug_log :: "jsstring list"

type_synonym attempt = "(js_exception + jsstring) \<times> jsstring list"

text \<open>\<open>updateCallback(newCompletion); return newCompletion;\<close>\<close>

definition update_and_return :: "callback \<Rightarrow> jsstring \<Rightarrow> attempt" where
  "update_and_return updateCallback newCompletion =
     (case updateCallback newCompletion of
        Returns \<Rightarrow> (Inr newCompletion, [newCompletion])
      | Throws \<Rightarrow> (Inl CallbackError, [newCompletion]))"

text \<open>
  \<open>try { ... } catch { console.debug(..., data); return currentCompletion; }\<close> around
  an attempt.
\<close>

definition try_catch :: "jsstring \<Rightarrow> jsstring \<Rightarrow> attempt \<Rightarrow> outcome" where
  "try_catch data currentCompletion body =
     (case body of
        (Inr v, cs) \<Rightarrow> \<lparr>result = Inr v, calls = cs, debug_log = []\<rparr>
      | (Inl e, cs) \<Rightarrow> \<lparr>result = Inr currentCompletion, calls = cs, debug_log = [data]\<rparr>)"

definition unchanged :: "jsstring \<Rightarrow> outcome" where
  "unchanged currentCompletion = \<lparr>result = Inr currentCompletion, calls = [], debug_log = []\<rparr>"

section \<open>The Strands parser (Converse events)\<close>

text \<open>
  \<open>json.event?.messageStart?.role\<close> and \<open>json.event?.contentBlockDelta?.delta?.text\<close>: the
  first access is a plain one and throws on \<open>null\<close>. \<open>strands_delta_text\<close> is
  \<open>json.event.contentBlockDelta.delta.text\<close>, read again without \<open>?.\<close> when the text is
  appended.
\<close>

definition strands_role :: "json \<Rightarrow> js_exception + jsvalue" where
  "strands_role json =
     (case member (Some json) (js ''event'') of
        Inl e \<Rightarrow> Inl e
      | Inr event \<Rightarrow>
          Inr (optional_member (optional_member event (js ''messageStart'')) (js ''role'')))"

definition strands_text :: "json \<Rightarrow> js_exception + jsvalue" where
  "strands_text json =
     (case member (Some json) (js ''event'') of
        Inl e \<Rightarrow> Inl e
      | Inr event \<Rightarrow>
          Inr (optional_member
                 (optional_member (optional_member event (js ''contentBlockDelta'')) (js ''delta''))
                 (js ''text'')))"

definition strands_delta_text :: "json \<Rightarrow> js_exception + jsvalue" where
  "strands_delta_text json =
     (case member (Some json) (js ''event'') of
        Inl e \<Rightarrow> Inl e
      | Inr event \<Rightarrow>
          (case member event (js ''contentBlockDelta'') of
             Inl e \<Rightarrow> Inl e
           | Inr block \<Rightarrow>
               (case member block (js ''delta'') of
                  Inl e \<Rightarrow> Inl e
                | Inr delta \<Rightarrow> member delta (js ''text''))))"

text \<open>The body of the \<open>try\<close> block of strandsParser.js.\<close>

definition strands_try :: "number_ops \<Rightarrow> jsstring \<Rightarrow> jsstring \<Rightarrow> callback \<Rightarrow> attempt" where
  "strands_try N data currentCompletion updateCallback =
     (case JSON_parse data of
        Inl e \<Rightarrow> (Inl e, [])
      | Inr json \<Rightarrow>
          (case strands_role json of
             Inl e \<Rightarrow> (Inl e, [])
           | Inr role \<Rightarrow>
               if role = Some (JString (js ''assistant'')) then
                 (if currentCompletion \<noteq> [] then
                    update_and_return updateCallback
                      (currentCompletion @ js ''\<newline>\<newline>'')
                  else (Inr currentCompletion, []))
               else
                 (case strands_text json of
                    Inl e \<Rightarrow> (Inl e, [])
                  | Inr text \<Rightarrow>
                      if to_boolean N text then
                        (case strands_delta_text json of
                           Inl e \<Rightarrow> (Inl e, [])
                         | Inr delta \<Rightarrow>
                             (case string_plus N currentCompletion delta of
                                Inl e \<Rightarrow> (Inl e, [])
                              | Inr newCompletion \<Rightarrow>
                                  update_and_return updateCallback newCompletion))
                      else (Inr currentCompletion, []))))"

definition strands_parseStreamingChunk ::
  "number_ops \<Rightarrow> jsstring \<Rightarrow> jsstring \<Rightarrow> callback \<Rightarrow> outcome" where
  "strands_parseStreamingChunk N line currentCompletion updateCallback =
     (if line = [] \<or> trim line = [] then unchanged currentCompletion
      else if \<not> startsWith line (js ''data: '') then unchanged currentCompletion
      else
        (let data = trim (substring line 6) in
           if data = [] then unchanged currentCompletion
           else try_catch data currentCompletion
                  (strands_try N data currentCompletion updateCallback)))"

section \<open>The LangGraph parser (AIMessageChunk)\<close>

text \<open>
  \<open>json.content.filter(block => block.type === 'text' && block.text)\<close>: the test of one
  block throws on a \<open>null\<close> block, and the filter stops there.
\<close>

definition keep_block :: "number_ops \<Rightarrow> json \<Rightarrow> js_exception + bool" where
  "keep_block N block =
     (case member (Some block) (js ''type'') of
        Inl e \<Rightarrow> Inl e
      | Inr t \<Rightarrow>
          if t = Some (JString (js ''text'')) then
            (case member (Some block) (js ''text'') of
               Inl e \<Rightarrow> Inl e
             | Inr x \<Rightarrow> Inr (to_boolean N x))
          else Inr False)"

fun filter_blocks :: "number_ops \<Rightarrow> json list \<Rightarrow> js_exception + json list" where
  "filter_blocks N [] = Inr []"
| "filter_blocks N (block # blocks) =
     (case keep_block N block of
        Inl e \<Rightarrow> Inl e
      | Inr keep \<Rightarrow>
          (case filter_blocks N blocks of
             Inl e \<Rightarrow> Inl e
           | Inr kept \<Rightarrow> Inr (if keep then block # kept else kept)))"

text \<open>\<open>.map(block => block.text)\<close>\<close>

fun map_text :: "json list \<Rightarrow> js_exception + jsvalue list" where
  "map_text [] = Inr []"
| "map_text (block # blocks) =
     (case member (Some block) (js ''text'') of
        Inl e \<Rightarrow> Inl e
      | Inr x \<Rightarrow>
          (case map_text blocks of
             Inl e \<Rightarrow> Inl e
           | Inr xs \<Rightarrow> Inr (x # xs)))"

definition text_content :: "number_ops \<Rightarrow> json list \<Rightarrow> js_exception + jsstring" where
  "text_content N content =
     (case filter_blocks N content of
        Inl e \<Rightarrow> Inl e
      | Inr kept \<Rightarrow>
          (case map_text kept of
             Inl e \<Rightarrow> Inl e
           | Inr texts \<Rightarrow> join N [] texts))"

text \<open>The body of the \<open>try\<close> block of the LangGraph parser.\<close>

definition langgraph_try :: "number_ops \<Rightarrow> jsstring \<Rightarrow> jsstring \<Rightarrow> callback \<Rightarrow> attempt" where
  "langgraph_try N data currentCompletion updateCallback =
     (case JSON_parse data of
        Inl e \<Rightarrow> (Inl e, [])
      | Inr json \<Rightarrow>
          (case member (Some json) (js ''type'') of
             Inl e \<Rightarrow> (Inl e, [])
           | Inr t \<Rightarrow>
               if t = Some (JString (js ''AIMessageChunk'')) then
                 (case member (Some json) (js ''content'') of
                    Inl e \<Rightarrow> (Inl e, [])
                  | Inr content \<Rightarrow>
                      (case content of
                         Some (JArray blocks) \<Rightarrow>
                           if length blocks = 0 then
                             (if currentCompletion \<noteq> [] then
                                update_and_return updateCallback
                                  (currentCompletion @ js ''\<newline>\<newline>'')
                              else (Inr currentCompletion, []))
                           else
                             (case text_content N blocks of
                                Inl e \<Rightarrow> (Inl e, [])
                              | Inr textContent \<Rightarrow>
                                  if textContent \<noteq> [] then
                                    update_and_return updateCallback
                                      (currentCompletion @ textContent)
                                  else (Inr currentCompletion, []))
                       | _ \<Rightarrow> (Inr currentCompletion, [])))
               else (Inr currentCompletion, [])))"

definition langgraph_parseStreamingChunk ::
  "number_ops \<Rightarrow> jsstring \<Rightarrow> jsstring \<Rightarrow> callback \<Rightarrow> outcome" where
  "langgraph_parseStreamingChunk N line currentCompletion updateCallback =
     (if line = [] \<or> trim line = [] then unchanged currentCompletion
      else if \<not> startsWith line (js ''data: '') then unchanged currentCompletion
      else
        (let data = trim (substring line 6) in
           if data = [] then unchanged currentCompletion
           else try_catch data currentCompletion
                  (langgraph_try N data currentCompletion updateCallback)))"

section \<open>Notions of the specification, and the inputs of the closed examples\<close>

text \<open>
  The boundary rule in the words of the specification: a non-empty buffer gets the
  separator appended and the callback is invoked with the result; an empty buffer is
  left alone. The pair is the new buffer and the callback's arguments.
\<close>

definition boundary_rule :: "jsstring \<Rightarrow> jsstring \<times> jsstring list" where
  "boundary_rule currentCompletion =
     (if currentCompletion \<noteq> []
      then (currentCompletion @ js ''\<newline>\<newline>'', [currentCompletion @ js ''\<newline>\<newline>''])
      else (currentCompletion, []))"

text \<open>
  The text delta in the words of the specification: the blocks whose \<open>type\<close> is
  \<open>"text"\<close> and whose \<open>text\<close> is present, their texts concatenated in order.
  \<open>string_texts\<close> says that the \<open>text\<close> of every block of type \<open>"text"\<close> is absent
  or a string.
\<close>

definition is_text_block :: "json \<Rightarrow> bool" where
  "is_text_block block \<longleftrightarrow>
     property block (js ''type'') = Some (JString (js ''text''))
     \<and> property block (js ''text'') \<noteq> None"

definition block_text :: "json \<Rightarrow> jsstring" where
  "block_text block = (case property block (js ''text'') of Some (JString s) \<Rightarrow> s | _ \<Rightarrow> [])"

definition concatenated_text :: "json list \<Rightarrow> jsstring" where
  "concatenated_text content = concat (map block_text (filter is_text_block content))"

definition string_texts :: "json list \<Rightarrow> bool" where
  "string_texts content \<longleftrightarrow>
     list_all (\<lambda>block. property block (js ''type'') = Some (JString (js ''text'')) \<longrightarrow>
                 (case property block (js ''text'') of
                    None \<Rightarrow> True
                  | Some (JString s) \<Rightarrow> True
                  | _ \<Rightarrow> False)) content"

text \<open>
  The same for texts of any kind: a block is kept when its \<open>type\<close> is \<open>"text"\<close> and
  its \<open>text\<close> is truthy (present and not \<open>null\<close>, \<open>false\<close>, a zero or the empty string);
  the text of a kept block is taken as JavaScript prints it, a string as it is; the
  concatenation puts the printed texts one after the other with nothing between them, and
  throws when printing one of them does.
\<close>

definition kept_block :: "number_ops \<Rightarrow> json \<Rightarrow> bool" where
  "kept_block N block \<longleftrightarrow>
     property block (js ''type'') = Some (JString (js ''text''))
     \<and> to_boolean N (property block (js ''text''))"

definition printed_text :: "number_ops \<Rightarrow> json \<Rightarrow> js_exception + jsstring" where
  "printed_text N block =
     (case property block (js ''text'') of
        None \<Rightarrow> Inr []
      | Some j \<Rightarrow> to_string N j)"

fun concatenation :: "number_ops \<Rightarrow> json list \<Rightarrow> js_exception + jsstring" where
  "concatenation N [] = Inr []"
| "concatenation N (block # blocks) =
     (case printed_text N block of
        Inl e \<Rightarrow> Inl e
      | Inr s \<Rightarrow>
          (case concatenation N blocks of
             Inl e \<Rightarrow> Inl e
           | Inr r \<Rightarrow> Inr (s @ r)))"

text \<open>
  The one kind of line on which the Strands parser invokes the callback with the buffer
  as it was: a decoded line that is not a boundary and whose delta text is truthy, is not
  a string, and prints as the empty string (the empty array does).
\<close>

definition empty_printing_delta :: "number_ops \<Rightarrow> jsstring \<Rightarrow> bool" where
  "empty_printing_delta N line \<longleftrightarrow>
     (case JSON_parse (trim (substring line 6)) of
        Inl e \<Rightarrow> False
      | Inr json \<Rightarrow>
          strands_role json \<noteq> Inr (Some (JString (js ''assistant'')))
          \<and> (case strands_text json of
                Inl e \<Rightarrow> False
              | Inr v \<Rightarrow>
                  (case v of
                     None \<Rightarrow> False
                   | Some j \<Rightarrow>
                       (case j of
                          JString t \<Rightarrow> False
                        | _ \<Rightarrow> to_boolean N v \<and> to_string N j = Inr []))))"

text \<open>
  The closed examples below never print a JSON number, and the only number they test for
  zero is \<open>0\<close>. They are instantiated with \<open>plain_numbers\<close>, which is right for the
  integers from 0 to 2^53 written without sign, fraction and exponent, and is not meant
  for other lexemes. \<open>never_throws\<close> and \<open>always_throws\<close> are two callbacks.
\<close>

definition plain_numbers :: number_ops where
  "plain_numbers =
     \<lparr>number_is_zero = (\<lambda>lexeme. lexeme = js ''0''),
      number_to_string = (\<lambda>lexeme. lexeme)\<rparr>"

definition never_throws :: callback where
  "never_throws v = Returns"

definition always_throws :: callback where
  "always_throws v = Throws"

definition converse_boundary_line :: jsstring where
  \<open>converse_boundary_line = js ''data: {"event":{"messageStart":{"role":"assistant"}}}''\<close>

definition converse_boundary_json :: json where
  "converse_boundary_json =
     JObject [(js ''event'', JObject [(js ''messageStart'',
       JObject [(js ''role'', JString (js ''assistant''))])])]"

definition langgraph_boundary_line :: jsstring where
  \<open>langgraph_boundary_line = js ''data: {"type":"AIMessageChunk","content":[]}''\<close>

definition langgraph_boundary_json :: json where
  "langgraph_boundary_json =
     JObject [(js ''type'', JString (js ''AIMessageChunk'')), (js ''content'', JArray [])]"


definition converse_delta_line :: jsstring where
  \<open>converse_delta_line = js ''data: {"event":{"contentBlockDelta":{"delta":{"text":"Hello"}}}}''\<close>

definition converse_delta_json :: json where
  "converse_delta_json =
     JObject [(js ''event'', JObject [(js ''contentBlockDelta'',
       JObject [(js ''delta'', JObject [(js ''text'', JString (js ''Hello''))])])])]"

definition langgraph_delta_line :: jsstring where
  \<open>langgraph_delta_line =
     js ''data: {"type":"AIMessageChunk","content":[{"type":"tool_use"},{"type":"text","text":"Hi","index":0},{"type":"text","text":" there","index":1}]}''\<close>


definition converse_user_line :: jsstring where
  \<open>converse_user_line = js ''data: {"event":{"messageStart":{"role":"user"}}}''\<close>

definition converse_user_json :: json where
  "converse_user_json =
     JObject [(js ''event'', JObject [(js ''messageStart'',
       JObject [(js ''role'', JString (js ''user''))])])]"

definition converse_true_line :: jsstring where
  \<open>converse_true_line = js ''data: {"event":{"contentBlockDelta":{"delta":{"text":true}}}}''\<close>

definition converse_true_json :: json where
  "converse_true_json =
     JObject [(js ''event'', JObject [(js ''contentBlockDelta'',
       JObject [(js ''delta'', JObject [(js ''text'', JBool True)])])])]"

definition converse_object_line :: jsstring where
  \<open>converse_object_line =
     js ''data: {"event":{"contentBlockDelta":{"delta":{"text":{"toString":"x"}}}}}''\<close>

definition converse_object_json :: json where
  "converse_object_json =
     JObject [(js ''event'', JObject [(js ''contentBlockDelta'',
       JObject [(js ''delta'',
         JObject [(js ''text'', JObject [(js ''toString'', JString (js ''x''))])])])])]"


definition langgraph_delta_content :: "json list" where
  "langgraph_delta_content =
     [JObject [(js ''type'', JString (js ''tool_use''))],
      JObject [(js ''type'', JString (js ''text'')), (js ''text'', JString (js ''Hi'')),
               (js ''index'', JNumber (js ''0''))],
      JObject [(js ''type'', JString (js ''text'')), (js ''text'', JString (js '' there'')),
               (js ''index'', JNumber (js ''1''))]]"

definition langgraph_delta_json :: json where
  "langgraph_delta_json =
     JObject [(js ''type'', JString (js ''AIMessageChunk'')),
              (js ''content'', JArray langgraph_delta_content)]"

definition langgraph_null_line :: jsstring where
  \<open>langgraph_null_line =
     js ''data: {"type":"AIMessageChunk","content":[null,{"type":"text","text":"Hi"}]}''\<close>

definition langgraph_null_content :: "json list" where
  "langgraph_null_content =
     [JNull, JObject [(js ''type'', JString (js ''text'')), (js ''text'', JString (js ''Hi''))]]"

definition langgraph_null_json :: json where
  "langgraph_null_json =
     JObject [(js ''type'', JString (js ''AIMessageChunk'')),
              (js ''content'', JArray langgraph_null_content)]"

definition converse_array_line :: jsstring where
  \<open>converse_array_line = js ''data: {"event":{"contentBlockDelta":{"delta":{"text":[]}}}}''\<close>

definition langgraph_mixed_line :: jsstring where
  \<open>langgraph_mixed_line =
     js ''data: {"type":"AIMessageChunk","content":[{"type":"text","text":0},{"type":"text","text":true},{"type":"text","text":"!"}]}''\<close>

definition langgraph_mixed_content :: "json list" where
  "langgraph_mixed_content =
     [JObject [(js ''type'', JString (js ''text'')), (js ''text'', JNumber (js ''0''))],
      JObject [(js ''type'', JString (js ''text'')), (js ''text'', JBool True)],
      JObject [(js ''type'', JString (js ''text'')), (js ''text'', JString (js ''!''))]]"

definition langgraph_mixed_json :: json where
  "langgraph_mixed_json =
     JObject [(js ''type'', JString (js ''AIMessageChunk'')),
              (js ''content'', JArray langgraph_mixed_content)]"

definition langgraph_tool_line :: jsstring where
  \<open>langgraph_tool_line = js ''data: {"type":"AIMessageChunk","content":[{"type":"tool_use"}]}''\<close>

definition langgraph_tool_content :: "json list" where
  "langgraph_tool_content = [JObject [(js ''type'', JString (js ''tool_use''))]]"

definition langgraph_tool_json :: json where
  "langgraph_tool_json =
     JObject [(js ''type'', JString (js ''AIMessageChunk'')),
              (js ''content'', JArray langgraph_tool_content)]"

definition langgraph_object_line :: jsstring where
  \<open>langgraph_object_line =
     js ''data: {"type":"AIMessageChunk","content":[{"type":"text","text":{"toString":"x"}}]}''\<close>

definition langgraph_object_content :: "json list" where
  "langgraph_object_content =
     [JObject [(js ''type'', JString (js ''text'')),
               (js ''text'', JObject [(js ''toString'', JString (js ''x''))])]]"

definition langgraph_object_json :: json where
  "langgraph_object_json =
     JObject [(js ''type'', JString (js ''AIMessageChunk'')),
              (js ''content'', JArray langgraph_object_content)]"

section \<open>Trimming, prefixes and the termination of the JSON parser\<close>

lemma trim_Nil_iff: "trim s = [] \<longleftrightarrow> (\<forall>c\<in>set s. is_white_space c)"
proof
  assume "trim s = []"
  then have all: "\<forall>c\<in>set (dropWhile is_white_space s). is_white_space c"
    by (simp add: trim_def)
  have "dropWhile is_white_space s = []"
  proof (rule ccontr)
    assume ne: "dropWhile is_white_space s \<noteq> []"
    then have "\<not> is_white_space (hd (dropWhile is_white_space s))"
      by (rule hd_dropWhile)
    moreover have "hd (dropWhile is_white_space s) \<in> set (dropWhile is_white_space s)"
      using ne by (rule hd_in_set)
    ultimately show False using all by blast
  qed
  then show "\<forall>c\<in>set s. is_white_space c"
    by simp
next
  assume "\<forall>c\<in>set s. is_white_space c"
  then show "trim s = []"
    by (auto simp: trim_def dest: set_dropWhileD)
qed

lemma startsWith_append: "startsWith s p \<longleftrightarrow> (\<exists>r. s = p @ r)"
  unfolding startsWith_def
  by (metis append_eq_conv_conj append_take_drop_id)

lemma startsWith_data_trim: 
  assumes "startsWith line (js ''data: '')"
  shows "line \<noteq> [] \<and> trim line \<noteq> []"
proof -
  from assms obtain r where "line = js ''data: '' @ r"
    using startsWith_append by blast
  then have l: "line = 0x64 # tl line"
    by (simp add: js_def)
  then have "(0x64 :: code_unit) \<in> set line"
    by (metis list.set_intros(1))
  moreover have "\<not> is_white_space 0x64"
    by (simp add: is_white_space_def)
  ultimately have "trim line \<noteq> []"
    using trim_Nil_iff by blast
  with l show ?thesis by auto
qed

lemma JSON_parse_Nil: "JSON_parse [] = Inl SyntaxError"
  by (simp add: JSON_parse_def skip_ws_def numeral_2_eq_2)


lemma skip_ws_le: "length (skip_ws s) \<le> length s"
  by (simp add: skip_ws_def length_dropWhile_le)

lemma skip_ws_less: "length r < length (skip_ws s) \<Longrightarrow> length r < length s"
  using skip_ws_le [of s] by simp

lemma push_Some: "push c x = Some (str, r) \<Longrightarrow> \<exists>str'. x = Some (str', r)"
  by (auto simp: push_def split: option.splits)

lemma string_chars_shorter: "string_chars s = Some (str, r) \<Longrightarrow> length r < length s"
proof (induction s arbitrary: str r rule: string_chars.induct)
  case 1
  then show ?case by simp
next
  case (2 c cs)
  then show ?case
    by (fastforce split: if_splits list.splits option.splits dest!: push_Some)
qed

lemma int_part_shorter: "int_part s = Some (i, r) \<Longrightarrow> length r < length s"
  by (auto simp: int_part_def less_Suc_eq_le length_dropWhile_le split: list.splits if_splits)

lemma frac_part_le: "frac_part s = Some (f, r) \<Longrightarrow> length r \<le> length s"
  by (auto simp: frac_part_def le_SucI length_dropWhile_le split: list.splits if_splits)

lemma exp_sign_le: "exp_sign s = (sg, r) \<Longrightarrow> length r \<le> length s"
  by (auto simp: exp_sign_def split: list.splits if_splits)

lemma exp_part_le: "exp_part s = Some (e, r) \<Longrightarrow> length r \<le> length s"
proof -
  assume a: "exp_part s = Some (e, r)"
  have d: "length (dropWhile is_digit t) \<le> length t" for t
    by (rule length_dropWhile_le)
  show ?thesis
  proof (cases s)
    case Nil
    with a show ?thesis by (simp add: exp_part_def)
  next
    case (Cons c cs)
    obtain sg t where st: "exp_sign cs = (sg, t)" by (cases "exp_sign cs")
    then have "length t \<le> length cs" by (rule exp_sign_le)
    with d [of t] have "length (dropWhile is_digit t) \<le> length s"
      using Cons by simp
    with a Cons st show ?thesis
      by (auto simp: exp_part_def split: if_splits)
  qed
qed

lemma number_token_shorter: "number_token s = Some (l, r) \<Longrightarrow> length r < length s"
proof -
  assume a: "number_token s = Some (l, r)"
  obtain sg s1 where sg: "(case s of [] \<Rightarrow> ([], s) | c # cs \<Rightarrow> if c = 0x2D then ([c], cs) else ([], s)) = (sg, s1)"
    by (cases "(case s of [] \<Rightarrow> ([], s) | c # cs \<Rightarrow> if c = 0x2D then ([c], cs) else ([], s))")
  then have l1: "length s1 \<le> length s"
    by (auto split: list.splits if_splits)
  from a sg obtain i s2 f s3 e where
    "int_part s1 = Some (i, s2)" "frac_part s2 = Some (f, s3)" "exp_part s3 = Some (e, r)"
    by (auto simp: number_token_def split: option.splits)
  then have "length s2 < length s1" "length s3 \<le> length s2" "length r \<le> length s3"
    by (auto dest: int_part_shorter frac_part_le exp_part_le)
  with l1 show ?thesis by simp
qed


lemma parse_shorter:
  "\<forall>s r. (\<forall>v. parse_value n s = Parsed v r \<longrightarrow> length r < length s)
       \<and> (\<forall>vs. parse_elements n s = Parsed vs r \<longrightarrow> length r < length s)
       \<and> (\<forall>ms. parse_members n s = Parsed ms r \<longrightarrow> length r < length s)"
proof (induction n)
  case 0
  then show ?case by simp
next
  case (Suc n)
  from Suc have V: "\<And>s r v. parse_value n s = Parsed v r \<Longrightarrow> length r < length s"
    and E: "\<And>s r vs. parse_elements n s = Parsed vs r \<Longrightarrow> length r < length s"
    and M: "\<And>s r ms. parse_members n s = Parsed ms r \<Longrightarrow> length r < length s"
    by blast+
  have ws: "skip_ws t = d # u \<Longrightarrow> length u < length t" for t d u
    using skip_ws_le [of t] by simp
  have V': "length r < length s" if "parse_value (Suc n) s = Parsed v r" for s r v
  proof (cases s)
    case Nil
    with that show ?thesis by simp
  next
    case (Cons c cs)
    with that show ?thesis
      by (auto simp: startsWith_def split: if_splits list.splits parse.splits option.splits
               dest!: E M string_chars_shorter number_token_shorter ws)
  qed
  have E': "length r < length s" if "parse_elements (Suc n) s = Parsed vs r" for s r vs
    using that
    by (auto split: if_splits list.splits parse.splits dest!: V E ws skip_ws_less)
  have M': "length r < length s" if "parse_members (Suc n) s = Parsed ms r" for s r ms
    using that
    by (auto split: if_splits list.splits parse.splits option.splits
             dest!: V M ws string_chars_shorter skip_ws_less)
  from V' E' M' show ?case by blast
qed


lemma parse_shorter_value: "parse_value n s = Parsed v r \<Longrightarrow> length r < length s"
  using parse_shorter by blast

lemma parse_fuel:
  "\<forall>s. (2 * length s < n \<longrightarrow> parse_value n s \<noteq> OutOfFuel)
     \<and> (2 * length s + 1 < n \<longrightarrow> parse_elements n s \<noteq> OutOfFuel)
     \<and> (2 * length s + 1 < n \<longrightarrow> parse_members n s \<noteq> OutOfFuel)"
proof (induction n)
  case 0
  then show ?case by simp
next
  case (Suc n)
  from Suc have V: "\<And>s. 2 * length s < n \<Longrightarrow> parse_value n s \<noteq> OutOfFuel"
    and E: "\<And>s. 2 * length s + 1 < n \<Longrightarrow> parse_elements n s \<noteq> OutOfFuel"
    and M: "\<And>s. 2 * length s + 1 < n \<Longrightarrow> parse_members n s \<noteq> OutOfFuel"
    by blast+
  have ws: "skip_ws t = d # u \<Longrightarrow> length u < length t" for t d u
    using skip_ws_le [of t] by simp
  have V': "parse_value (Suc n) s \<noteq> OutOfFuel" if b: "2 * length s < Suc n" for s
  proof (cases s)
    case Nil
    then show ?thesis by simp
  next
    case (Cons c cs)
    have e: "parse_elements n (d # u) \<noteq> OutOfFuel" if "skip_ws cs = d # u" for d u
      using ws [OF that] b Cons by (intro E) simp
    have m: "parse_members n (d # u) \<noteq> OutOfFuel" if "skip_ws cs = d # u" for d u
      using ws [OF that] b Cons by (intro M) simp
    show ?thesis
    proof (cases "c = 0x5B")
      case True
      with Cons e show ?thesis
        by (auto split: list.splits parse.splits)
    next
      case no_array: False
      show ?thesis
      proof (cases "c = 0x7B")
        case True
        with Cons no_array m show ?thesis
          by (auto split: list.splits parse.splits)
      next
        case False
        with Cons no_array show ?thesis
          by (simp split: option.split)
      qed
    qed
  qed
  have E': "parse_elements (Suc n) s \<noteq> OutOfFuel" if b: "2 * length s + 1 < Suc n" for s
  proof -
    have 1: "parse_value n s \<noteq> OutOfFuel"
      using b by (intro V) simp
    have 2: "parse_elements n (skip_ws u) \<noteq> OutOfFuel"
      if "parse_value n s = Parsed v r" "skip_ws r = c # u" for v r c u
    proof -
      have "length r < length s" using that(1) by (rule parse_shorter_value)
      moreover have "length u < length r" using that(2) by (rule ws)
      moreover have "length (skip_ws u) \<le> length u" by (rule skip_ws_le)
      ultimately show ?thesis using b by (intro E) simp
    qed
    show ?thesis using 1 2
      by (auto split: list.splits parse.splits)
  qed
  have M': "parse_members (Suc n) s \<noteq> OutOfFuel" if b: "2 * length s + 1 < Suc n" for s
  proof (cases s)
    case Nil
    then show ?thesis by simp
  next
    case (Cons q cs)
    have 1: "parse_value n (skip_ws u) \<noteq> OutOfFuel"
      if "string_chars cs = Some (key, r)" "skip_ws r = c # u" for key r c u
    proof -
      have "length r < length cs" using that(1) by (rule string_chars_shorter)
      moreover have "length u < length r" using that(2) by (rule ws)
      moreover have "length (skip_ws u) \<le> length u" by (rule skip_ws_le)
      ultimately show ?thesis using b Cons by (intro V) simp
    qed
    have 2: "parse_members n (skip_ws u') \<noteq> OutOfFuel"
      if "string_chars cs = Some (key, r)" "skip_ws r = c # u"
         "parse_value n (skip_ws u) = Parsed v r2" "skip_ws r2 = d # u'" for key r c u v r2 d u'
    proof -
      have "length r < length cs" using that(1) by (rule string_chars_shorter)
      moreover have "length u < length r" using that(2) by (rule ws)
      moreover have "length (skip_ws u) \<le> length u" by (rule skip_ws_le)
      moreover have "length r2 < length (skip_ws u)" using that(3) by (rule parse_shorter_value)
      moreover have "length u' < length r2" using that(4) by (rule ws)
      moreover have "length (skip_ws u') \<le> length u'" by (rule skip_ws_le)
      ultimately show ?thesis using b Cons by (intro M) simp
    qed
    show ?thesis
    proof
      assume oof: "parse_members (Suc n) s = OutOfFuel"
      from oof Cons obtain key r where sc: "string_chars cs = Some (key, r)" and q: "q = 0x22"
        by (auto split: if_splits option.splits)
      from oof Cons sc q obtain u where w1: "skip_ws r = 0x3A # u"
        by (auto split: if_splits list.splits)
      from oof Cons sc q w1 1 [OF sc w1] obtain v r2 where pv: "parse_value n (skip_ws u) = Parsed v r2"
        by (auto split: parse.splits)
      from oof Cons sc q w1 pv obtain u' where w2: "skip_ws r2 = 0x2C # u'"
        by (auto split: if_splits list.splits)
      from oof Cons sc q w1 pv w2 have "parse_members n (skip_ws u') = OutOfFuel"
        by (auto split: parse.splits)
      with 2 [OF sc w1 pv w2] show False by simp
    qed
  qed
  from V' E' M' show ?case by blast
qed

lemma parse_value_fuel: "parse_value (2 * length s + 2) (skip_ws s) \<noteq> OutOfFuel"
proof -
  have "2 * length (skip_ws s) < 2 * length s + 2"
    using skip_ws_le [of s] by simp
  then show ?thesis using parse_fuel by blast
qed

section \<open>The shape of every call\<close>

lemma update_and_return_cases:
  "update_and_return cb v = (if cb v = Returns then (Inr v, [v]) else (Inl CallbackError, [v]))"
  by (cases "cb v") (simp_all add: update_and_return_def)

lemma strands_try_shape:
  "(\<exists>e. \<forall>cb. strands_try N d cur cb = (Inl e, []))
   \<or> (\<forall>cb. strands_try N d cur cb = (Inr cur, []))
   \<or> (\<exists>t. \<forall>cb. strands_try N d cur cb = update_and_return cb (cur @ t))"
proof (cases "JSON_parse d")
  case (Inl e)
  then have "\<forall>cb. strands_try N d cur cb = (Inl e, [])"
    by (simp add: strands_try_def)
  then show ?thesis by blast
next
  case json: (Inr json)
  show ?thesis
  proof (cases "strands_role json")
    case (Inl e)
    with json have "\<forall>cb. strands_try N d cur cb = (Inl e, [])"
      by (simp add: strands_try_def)
    then show ?thesis by blast
  next
    case role: (Inr role)
    show ?thesis
    proof (cases "role = Some (JString (js ''assistant''))")
      case True
      with json role have "\<forall>cb. strands_try N d cur cb =
          (if cur \<noteq> [] then update_and_return cb (cur @ js ''\<newline>\<newline>'') else (Inr cur, []))"
        by (simp add: strands_try_def)
      then show ?thesis by (cases "cur = []") auto
    next
      case False
      with json role have eq: "\<forall>cb. strands_try N d cur cb =
          (case strands_text json of
             Inl e \<Rightarrow> (Inl e, [])
           | Inr tx \<Rightarrow>
               if to_boolean N tx then
                 (case strands_delta_text json of
                    Inl e \<Rightarrow> (Inl e, [])
                  | Inr delta \<Rightarrow>
                      (case string_plus N cur delta of
                         Inl e \<Rightarrow> (Inl e, [])
                       | Inr newCompletion \<Rightarrow> update_and_return cb newCompletion))
               else (Inr cur, []))"
        by (simp add: strands_try_def)
      have plus: "(\<exists>e. string_plus N cur v = Inl e) \<or> (\<exists>t. string_plus N cur v = Inr (cur @ t))" for v
        by (auto simp: string_plus_def split: option.splits sum.splits)
      show ?thesis
      proof (cases "strands_text json")
        case (Inl e)
        with eq show ?thesis by simp
      next
        case tx: (Inr tx)
        show ?thesis
        proof (cases "to_boolean N tx")
          case False
          with eq tx show ?thesis by simp
        next
          case True
          show ?thesis
          proof (cases "strands_delta_text json")
            case (Inl e)
            with eq tx True show ?thesis by simp
          next
            case delta: (Inr delta)
            from plus [of delta] show ?thesis
            proof
              assume "\<exists>e. string_plus N cur delta = Inl e"
              with eq tx True delta show ?thesis by auto
            next
              assume "\<exists>t. string_plus N cur delta = Inr (cur @ t)"
              then obtain t where "string_plus N cur delta = Inr (cur @ t)" ..
              with eq tx True delta have "\<forall>cb. strands_try N d cur cb = update_and_return cb (cur @ t)"
                by simp
              then show ?thesis by blast
            qed
          qed
        qed
      qed
    qed
  qed
qed


lemma langgraph_try_shape:
  "(\<exists>e. \<forall>cb. langgraph_try N d cur cb = (Inl e, []))
   \<or> (\<forall>cb. langgraph_try N d cur cb = (Inr cur, []))
   \<or> (\<exists>t. t \<noteq> [] \<and> (\<forall>cb. langgraph_try N d cur cb = update_and_return cb (cur @ t)))"
proof (cases "JSON_parse d")
  case (Inl e)
  then have "\<forall>cb. langgraph_try N d cur cb = (Inl e, [])"
    by (simp add: langgraph_try_def)
  then show ?thesis by blast
next
  case json: (Inr json)
  show ?thesis
  proof (cases "member (Some json) (js ''type'')")
    case (Inl e)
    with json have "\<forall>cb. langgraph_try N d cur cb = (Inl e, [])"
      by (simp add: langgraph_try_def)
    then show ?thesis by blast
  next
    case ty: (Inr ty)
    show ?thesis
    proof (cases "ty = Some (JString (js ''AIMessageChunk''))")
      case False
      with json ty have "\<forall>cb. langgraph_try N d cur cb = (Inr cur, [])"
        by (simp add: langgraph_try_def)
      then show ?thesis by blast
    next
      case chunk: True
      show ?thesis
      proof (cases "member (Some json) (js ''content'')")
        case (Inl e)
        with json ty chunk have "\<forall>cb. langgraph_try N d cur cb = (Inl e, [])"
          by (simp add: langgraph_try_def)
        then show ?thesis by blast
      next
        case content: (Inr content)
        show ?thesis
        proof (cases "\<exists>blocks. content = Some (JArray blocks)")
          case False
          with json ty chunk content have "\<forall>cb. langgraph_try N d cur cb = (Inr cur, [])"
            by (auto simp: langgraph_try_def split: option.splits json.splits)
          then show ?thesis by blast
        next
          case True
          then obtain blocks where blocks: "content = Some (JArray blocks)" ..
          show ?thesis
          proof (cases "blocks = []")
            case True
            with json ty chunk content blocks have "\<forall>cb. langgraph_try N d cur cb =
                (if cur \<noteq> [] then update_and_return cb (cur @ js ''\<newline>\<newline>'')
                 else (Inr cur, []))"
              by (simp add: langgraph_try_def)
            moreover have "js ''\<newline>\<newline>'' \<noteq> []"
              by (simp add: js_def)
            ultimately show ?thesis by (cases "cur = []") auto
          next
            case False
            with json ty chunk content blocks have eq: "\<forall>cb. langgraph_try N d cur cb =
                (case text_content N blocks of
                   Inl e \<Rightarrow> (Inl e, [])
                 | Inr textContent \<Rightarrow>
                     if textContent \<noteq> [] then update_and_return cb (cur @ textContent)
                     else (Inr cur, []))"
              by (simp add: langgraph_try_def)
            show ?thesis
            proof (cases "text_content N blocks")
              case (Inl e)
              with eq show ?thesis by simp
            next
              case (Inr textContent)
              with eq show ?thesis by (cases "textContent = []") auto
            qed
          qed
        qed
      qed
    qed
  qed
qed


lemma try_catch_shape:
  assumes "(\<exists>e. \<forall>cb. a cb = (Inl e, [])) \<or> (\<forall>cb. a cb = (Inr cur, []))
           \<or> (\<exists>t. P t \<and> (\<forall>cb. a cb = update_and_return cb (cur @ t)))"
  shows "(\<forall>cb. result (try_catch d cur (a cb)) = Inr cur \<and> calls (try_catch d cur (a cb)) = [])
     \<or> (\<exists>t. P t \<and> (\<forall>cb. calls (try_catch d cur (a cb)) = [cur @ t]
            \<and> result (try_catch d cur (a cb))
                = Inr (if cb (cur @ t) = Returns then cur @ t else cur)))"
  using assms
  by (auto simp: try_catch_def update_and_return_cases)

text \<open>
  Either a call leaves the buffer alone and does not invoke the callback, or it invokes
  the callback once, with the buffer extended by some \<open>t\<close>, and returns the extended
  buffer if the callback returns and the old one if it throws. Which of the two, and
  \<open>t\<close>, do not depend on the callback.
\<close>

lemma strands_shape:
  "(\<forall>cb. result (strands_parseStreamingChunk N line cur cb) = Inr cur
         \<and> calls (strands_parseStreamingChunk N line cur cb) = [])
   \<or> (\<exists>t. \<forall>cb. calls (strands_parseStreamingChunk N line cur cb) = [cur @ t]
          \<and> result (strands_parseStreamingChunk N line cur cb)
              = Inr (if cb (cur @ t) = Returns then cur @ t else cur))"
proof -
  have "(\<forall>cb. result (try_catch d cur (strands_try N d cur cb)) = Inr cur
           \<and> calls (try_catch d cur (strands_try N d cur cb)) = [])
     \<or> (\<exists>t. True \<and> (\<forall>cb. calls (try_catch d cur (strands_try N d cur cb)) = [cur @ t]
            \<and> result (try_catch d cur (strands_try N d cur cb))
                = Inr (if cb (cur @ t) = Returns then cur @ t else cur)))" for d
    using strands_try_shape [of N d cur] by (intro try_catch_shape) auto
  then show ?thesis
    by (simp add: strands_parseStreamingChunk_def Let_def unchanged_def)
qed

lemma langgraph_shape:
  "(\<forall>cb. result (langgraph_parseStreamingChunk N line cur cb) = Inr cur
         \<and> calls (langgraph_parseStreamingChunk N line cur cb) = [])
   \<or> (\<exists>t. t \<noteq> [] \<and> (\<forall>cb. calls (langgraph_parseStreamingChunk N line cur cb) = [cur @ t]
          \<and> result (langgraph_parseStreamingChunk N line cur cb)
              = Inr (if cb (cur @ t) = Returns then cur @ t else cur)))"
proof -
  have "(\<forall>cb. result (try_catch d cur (langgraph_try N d cur cb)) = Inr cur
           \<and> calls (try_catch d cur (langgraph_try N d cur cb)) = [])
     \<or> (\<exists>t. t \<noteq> [] \<and> (\<forall>cb. calls (try_catch d cur (langgraph_try N d cur cb)) = [cur @ t]
            \<and> result (try_catch d cur (langgraph_try N d cur cb))
                = Inr (if cb (cur @ t) = Returns then cur @ t else cur)))" for d
    using langgraph_try_shape [of N d cur] by (intro try_catch_shape) auto
  then show ?thesis
    by (simp add: langgraph_parseStreamingChunk_def Let_def unchanged_def)
qed

text \<open>A line that carries decodable data reaches the \<open>try\<close> block.\<close>

lemma strands_decoded:
  assumes "startsWith line (js ''data: '')"
    and "JSON_parse (trim (substring line 6)) = Inr json"
  shows "strands_parseStreamingChunk N line cur cb
         = try_catch (trim (substring line 6)) cur
             (strands_try N (trim (substring line 6)) cur cb)"
proof -
  from assms(2) have "trim (substring line 6) \<noteq> []"
    using JSON_parse_Nil by auto
  with assms(1) startsWith_data_trim [OF assms(1)] show ?thesis
    by (simp add: strands_parseStreamingChunk_def Let_def)
qed

lemma langgraph_decoded:
  assumes "startsWith line (js ''data: '')"
    and "JSON_parse (trim (substring line 6)) = Inr json"
  shows "langgraph_parseStreamingChunk N line cur cb
         = try_catch (trim (substring line 6)) cur
             (langgraph_try N (trim (substring line 6)) cur cb)"
proof -
  from assms(2) have "trim (substring line 6) \<noteq> []"
    using JSON_parse_Nil by auto
  with assms(1) startsWith_data_trim [OF assms(1)] show ?thesis
    by (simp add: langgraph_parseStreamingChunk_def Let_def)
qed

section \<open>Reading properties\<close>

lemma member_property: "property j k = Some v \<Longrightarrow> member (Some j) k = Inr (Some v)"
  by (cases j) (simp_all add: member_def property_def)

lemma optional_member_defined:
  "optional_member v k = Some x \<Longrightarrow> member v k = Inr (Some x)"
  by (auto simp: optional_member_def member_def split: option.splits json.splits)

lemma to_boolean_defined: "to_boolean N v \<Longrightarrow> \<exists>x. v = Some x"
  by (cases v) (simp_all add: to_boolean_def)

lemma strands_delta_text_eq:
  assumes "strands_text json = Inr v" and "to_boolean N v"
  shows "strands_delta_text json = Inr v"
proof -
  from assms(2) obtain x where v: "v = Some x"
    using to_boolean_defined by blast
  from assms(1) obtain event where ev: "member (Some json) (js ''event'') = Inr event"
    and path: "optional_member
                 (optional_member (optional_member event (js ''contentBlockDelta'')) (js ''delta''))
                 (js ''text'') = v"
    by (auto simp: strands_text_def split: sum.splits)
  from path v obtain delta where
    delta: "optional_member (optional_member event (js ''contentBlockDelta'')) (js ''delta'') = Some delta"
    by (cases "optional_member (optional_member event (js ''contentBlockDelta'')) (js ''delta'')")
       (simp_all add: optional_member_def)
  then obtain block where block: "optional_member event (js ''contentBlockDelta'') = Some block"
    by (cases "optional_member event (js ''contentBlockDelta'')")
       (simp_all add: optional_member_def)
  from block have 1: "member event (js ''contentBlockDelta'') = Inr (Some block)"
    by (rule optional_member_defined)
  from delta block have 2: "member (Some block) (js ''delta'') = Inr (Some delta)"
    by (simp add: optional_member_defined)
  from path delta v have 3: "member (Some delta) (js ''text'') = Inr (Some x)"
    by (simp add: optional_member_defined)
  from ev 1 2 3 v show ?thesis
    by (simp add: strands_delta_text_def)
qed


lemma strands_not_boundary:
  assumes "JSON_parse d = Inr json"
    and "strands_role json \<noteq> Inr (Some (JString (js ''assistant'')))"
  shows "strands_try N d cur cb =
     (case strands_text json of
        Inl e \<Rightarrow> (Inl e, [])
      | Inr v \<Rightarrow>
          if to_boolean N v then
            (case string_plus N cur v of
               Inl e \<Rightarrow> (Inl e, [])
             | Inr new \<Rightarrow> update_and_return cb new)
          else (Inr cur, []))"
proof (cases "strands_text json")
  case (Inl e)
  then have "strands_role json = Inl e"
    by (auto simp: strands_text_def strands_role_def split: sum.splits)
  with assms(1) Inl show ?thesis
    by (simp add: strands_try_def)
next
  case (Inr v)
  then obtain role where role: "strands_role json = Inr role"
    by (auto simp: strands_text_def strands_role_def split: sum.splits)
  show ?thesis
  proof (cases "to_boolean N v")
    case True
    from strands_delta_text_eq [OF Inr True] assms role Inr True show ?thesis
      by (simp add: strands_try_def)
  next
    case False
    with assms role Inr show ?thesis
      by (simp add: strands_try_def)
  qed
qed

lemma strands_changed_argument:
  assumes c: "calls (strands_parseStreamingChunk N line cur cb) = [v]"
    and n: "\<not> empty_printing_delta N line"
  shows "v \<noteq> cur"
proof -
  have p: "startsWith line (js ''data: '')"
  proof (rule ccontr)
    assume np: "\<not> startsWith line (js ''data: '')"
    from np c show False
      by (simp add: strands_parseStreamingChunk_def unchanged_def split: if_splits)
  qed
  obtain json where d: "JSON_parse (trim (substring line 6)) = Inr json"
  proof (cases "JSON_parse (trim (substring line 6))")
    case (Inl e)
    with c have False
      by (simp add: strands_parseStreamingChunk_def unchanged_def Let_def try_catch_def
            strands_try_def split: if_splits)
    then show ?thesis ..
  next
    case (Inr json)
    then show ?thesis by (rule that)
  qed
  have nl: "js ''\<newline>\<newline>'' \<noteq> []"
    by (simp add: js_def)
  show ?thesis
  proof (cases "strands_role json = Inr (Some (JString (js ''assistant'')))")
    case True
    with d have "strands_try N (trim (substring line 6)) cur cb
        = (if cur \<noteq> [] then update_and_return cb (cur @ js ''\<newline>\<newline>'')
           else (Inr cur, []))"
      by (simp add: strands_try_def)
    with c nl show ?thesis
      unfolding strands_decoded [OF p d]
      by (auto simp: try_catch_def update_and_return_cases split: if_splits)
  next
    case False
    note eq = strands_decoded [OF p d] strands_not_boundary [OF d False]
    show ?thesis
    proof (cases "strands_text json")
      case (Inl e)
      with c show ?thesis
        unfolding eq by (simp add: try_catch_def)
    next
      case tx: (Inr tx)
      show ?thesis
      proof (cases "to_boolean N tx")
        case False
        with c tx show ?thesis
          unfolding eq by (simp add: try_catch_def)
      next
        case True
        then obtain j where j: "tx = Some j"
          using to_boolean_defined by blast
        show ?thesis
        proof (cases "to_string N j")
          case (Inl e)
          with c tx True j show ?thesis
            unfolding eq by (simp add: try_catch_def string_plus_def)
        next
          case (Inr t)
          with c tx True j have v: "v = cur @ t"
            unfolding eq
            by (auto simp: try_catch_def string_plus_def update_and_return_cases split: if_splits)
          have "t \<noteq> []"
          proof
            assume e: "t = []"
            show False
            proof (cases "\<exists>s. j = JString s")
              case True
              then obtain s where "j = JString s" ..
              with Inr e \<open>to_boolean N tx\<close> j show False
                by (simp add: to_boolean_def)
            next
              case False
              with d \<open>strands_role json \<noteq> Inr (Some (JString (js ''assistant'')))\<close> tx j
                \<open>to_boolean N tx\<close> Inr e
              have "empty_printing_delta N line"
                by (cases j) (simp_all add: empty_printing_delta_def)
              with n show False ..
            qed
          qed
          with v show ?thesis by simp
        qed
      qed
    qed
  qed
qed

lemma strands_empty_printing:
  assumes p: "startsWith line (js ''data: '')"
    and e: "empty_printing_delta N line"
  shows "calls (strands_parseStreamingChunk N line cur cb) = [cur]
       \<and> result (strands_parseStreamingChunk N line cur cb) = Inr cur"
proof -
  from e obtain json where d: "JSON_parse (trim (substring line 6)) = Inr json"
    by (cases "JSON_parse (trim (substring line 6))") (simp_all add: empty_printing_delta_def)
  with e have r: "strands_role json \<noteq> Inr (Some (JString (js ''assistant'')))"
    by (simp add: empty_printing_delta_def)
  from e d r obtain j where tx: "strands_text json = Inr (Some j)"
    and b: "to_boolean N (Some j)" and s: "to_string N j = Inr []"
    by (auto simp: empty_printing_delta_def split: sum.splits option.splits json.splits)
  show ?thesis
    unfolding strands_decoded [OF p d] strands_not_boundary [OF d r]
    using tx b s
    by (simp add: try_catch_def string_plus_def update_and_return_cases)
qed

section \<open>Filtering and joining the content blocks\<close>

lemma member_not_null: "j \<noteq> JNull \<Longrightarrow> member (Some j) k = Inr (property j k)"
  by (cases j) (simp_all add: member_def)

lemma keep_block_eq: "block \<noteq> JNull \<Longrightarrow> keep_block N block = Inr (kept_block N block)"
  by (simp add: keep_block_def kept_block_def member_not_null)

lemma filter_blocks_eq:
  "JNull \<notin> set content \<Longrightarrow> filter_blocks N content = Inr (filter (kept_block N) content)"
  by (induction content) (auto simp: keep_block_eq)

lemma map_text_defined:
  "JNull \<notin> set blocks \<Longrightarrow> map_text blocks = Inr (map (\<lambda>block. property block (js ''text'')) blocks)"
  by (induction blocks) (auto simp: member_not_null)

lemma join_kept_texts:
  "\<forall>block\<in>set blocks. kept_block N block \<Longrightarrow>
   join N [] (map (\<lambda>block. property block (js ''text'')) blocks) = concatenation N blocks"
proof (induction blocks)
  case Nil
  then show ?case by simp
next
  case (Cons block blocks)
  then have "to_boolean N (property block (js ''text''))"
    by (simp add: kept_block_def)
  then obtain j where j: "property block (js ''text'') = Some j"
    using to_boolean_defined by blast
  with \<open>to_boolean N (property block (js ''text''))\<close> have "j \<noteq> JNull"
    by (auto simp: to_boolean_def)
  with j have one: "(case property block (js ''text'') of
              None \<Rightarrow> Inr []
            | Some j \<Rightarrow> (case j of JNull \<Rightarrow> Inr [] | _ \<Rightarrow> to_string N j)) = printed_text N block"
    by (cases j) (simp_all add: printed_text_def)
  from Cons have ih: "join N [] (map (\<lambda>block. property block (js ''text'')) blocks)
      = concatenation N blocks"
    by simp
  show ?case
  proof (cases "blocks = []")
    case True
    with one show ?thesis
      by (simp split: sum.splits)
  next
    case False
    with one ih show ?thesis
      by (simp split: sum.splits)
  qed
qed

lemma text_content_concatenation:
  assumes "JNull \<notin> set content"
  shows "text_content N content = concatenation N (filter (kept_block N) content)"
proof -
  let ?kept = "filter (kept_block N) content"
  have f: "filter_blocks N content = Inr ?kept"
    using assms by (rule filter_blocks_eq)
  from assms have "JNull \<notin> set ?kept" by simp
  then have m: "map_text ?kept = Inr (map (\<lambda>block. property block (js ''text'')) ?kept)"
    by (rule map_text_defined)
  have j: "join N [] (map (\<lambda>block. property block (js ''text'')) ?kept) = concatenation N ?kept"
    by (intro join_kept_texts) simp
  from f m j show ?thesis
    by (simp add: text_content_def)
qed

lemma concatenation_strings:
  "string_texts content \<Longrightarrow>
   concatenation N (filter (kept_block N) content) = Inr (concatenated_text content)"
proof (induction content)
  case Nil
  then show ?case by (simp add: concatenated_text_def)
next
  case (Cons block content)
  then have ih: "concatenation N (filter (kept_block N) content) = Inr (concatenated_text content)"
    by (simp add: string_texts_def)
  show ?case
  proof (cases "property block (js ''type'') = Some (JString (js ''text''))")
    case False
    then have "\<not> kept_block N block" and "\<not> is_text_block block"
      by (simp_all add: kept_block_def is_text_block_def)
    with ih show ?thesis
      by (simp add: concatenated_text_def)
  next
    case True
    with Cons.prems consider (absent) "property block (js ''text'') = None"
      | (string) s where "property block (js ''text'') = Some (JString s)"
      by (auto simp: string_texts_def split: option.splits json.splits)
    then show ?thesis
    proof cases
      case absent
      with True have "\<not> kept_block N block" and "\<not> is_text_block block"
        by (simp_all add: kept_block_def is_text_block_def to_boolean_def)
      with ih show ?thesis
        by (simp add: concatenated_text_def)
    next
      case string
      show ?thesis
      proof (cases "s = []")
        case True
        with string \<open>property block (js ''type'') = Some (JString (js ''text''))\<close>
        have "\<not> kept_block N block" and "is_text_block block" and "block_text block = []"
          by (simp_all add: kept_block_def is_text_block_def to_boolean_def block_text_def)
        with ih show ?thesis
          by (simp add: concatenated_text_def)
      next
        case False
        with string \<open>property block (js ''type'') = Some (JString (js ''text''))\<close>
        have "kept_block N block" and "is_text_block block" and "block_text block = s"
          and "printed_text N block = Inr s"
          by (simp_all add: kept_block_def is_text_block_def to_boolean_def block_text_def
                printed_text_def)
        with ih show ?thesis
          by (simp add: concatenated_text_def)
      qed
    qed
  qed
qed

lemma filter_blocks_null: "JNull \<in> set content \<Longrightarrow> \<exists>e. filter_blocks N content = Inl e"
proof (induction content)
  case Nil
  then show ?case by simp
next
  case (Cons block content)
  show ?case
  proof (cases "block = JNull")
    case True
    then show ?thesis
      by (simp add: keep_block_def member_def)
  next
    case False
    with Cons obtain e where "filter_blocks N content = Inl e"
      by auto
    then show ?thesis
      by (simp split: sum.splits)
  qed
qed

lemma text_content_null: "JNull \<in> set content \<Longrightarrow> \<exists>e. text_content N content = Inl e"
  using filter_blocks_null [of content N] by (auto simp: text_content_def)

section \<open>The parser contract\<close>

text \<open>
  C1. For every line, every buffer and every callback (one that returns as well as one
  that throws), a call of either parser returns a string: no exception leaves the call.
\<close>

theorem parseChunk_never_raises:
  "(\<exists>s. result (strands_parseStreamingChunk N line currentCompletion updateCallback) = Inr s)
   \<and> (\<exists>s. result (langgraph_parseStreamingChunk N line currentCompletion updateCallback) = Inr s)"
  using strands_shape [of N line currentCompletion]
    langgraph_shape [of N line currentCompletion]
  by auto

text \<open>
  C2. The string that either parser returns has the buffer it was given as a prefix:
  the buffer is only ever appended to.
\<close>

theorem parseChunk_append_only:
  "(\<exists>s. result (strands_parseStreamingChunk N line currentCompletion updateCallback) = Inr s
        \<and> prefix currentCompletion s)
   \<and> (\<exists>s. result (langgraph_parseStreamingChunk N line currentCompletion updateCallback) = Inr s
        \<and> prefix currentCompletion s)"
  using strands_shape [of N line currentCompletion]
    langgraph_shape [of N line currentCompletion]
  by auto

text \<open>
  C3, as the code has it. A call invokes the callback at most once. Whenever the
  returned value differs from the buffer, the callback was invoked, once, with the
  returned value; whenever the callback was invoked and returned, the returned value is
  its argument. In the LangGraph parser the argument always differs from the buffer, so
  that a callback that returns is invoked exactly when the returned value differs. In the
  Strands parser the same holds on every line but one kind: a line that is not a boundary
  and whose delta text is truthy, not a string, and prints as the empty string (the empty
  array of the counterexample); on such a line the callback is invoked once with the
  buffer as it was, and that buffer is returned.
\<close>

theorem callback_at_most_once:
  "length (calls (strands_parseStreamingChunk N line currentCompletion updateCallback)) \<le> 1
   \<and> length (calls (langgraph_parseStreamingChunk N line currentCompletion updateCallback)) \<le> 1
   \<and> (\<forall>r. result (strands_parseStreamingChunk N line currentCompletion updateCallback) = Inr r
          \<and> r \<noteq> currentCompletion
        \<longrightarrow> calls (strands_parseStreamingChunk N line currentCompletion updateCallback) = [r])
   \<and> (\<forall>r. result (langgraph_parseStreamingChunk N line currentCompletion updateCallback) = Inr r
          \<and> r \<noteq> currentCompletion
        \<longrightarrow> calls (langgraph_parseStreamingChunk N line currentCompletion updateCallback) = [r])
   \<and> (\<forall>v. calls (strands_parseStreamingChunk N line currentCompletion updateCallback) = [v]
          \<and> updateCallback v = Returns
        \<longrightarrow> result (strands_parseStreamingChunk N line currentCompletion updateCallback) = Inr v)
   \<and> (\<forall>v. calls (langgraph_parseStreamingChunk N line currentCompletion updateCallback) = [v]
          \<and> updateCallback v = Returns
        \<longrightarrow> result (langgraph_parseStreamingChunk N line currentCompletion updateCallback) = Inr v)
   \<and> (\<forall>v. calls (langgraph_parseStreamingChunk N line currentCompletion updateCallback) = [v]
        \<longrightarrow> v \<noteq> currentCompletion)
   \<and> (\<forall>v. calls (strands_parseStreamingChunk N line currentCompletion updateCallback) = [v]
          \<and> \<not> empty_printing_delta N line
        \<longrightarrow> v \<noteq> currentCompletion)
   \<and> (startsWith line (js ''data: '') \<and> empty_printing_delta N line
        \<longrightarrow> calls (strands_parseStreamingChunk N line currentCompletion updateCallback)
              = [currentCompletion]
            \<and> result (strands_parseStreamingChunk N line currentCompletion updateCallback)
              = Inr currentCompletion)"
proof -
  have S0: "(result (strands_parseStreamingChunk N line currentCompletion updateCallback)
               = Inr currentCompletion
             \<and> calls (strands_parseStreamingChunk N line currentCompletion updateCallback) = [])
      \<or> (\<exists>t. calls (strands_parseStreamingChunk N line currentCompletion updateCallback)
                 = [currentCompletion @ t]
             \<and> result (strands_parseStreamingChunk N line currentCompletion updateCallback)
                 = Inr (if updateCallback (currentCompletion @ t) = Returns
                        then currentCompletion @ t else currentCompletion))"
    using strands_shape [of N line currentCompletion] by blast
  have L0: "(result (langgraph_parseStreamingChunk N line currentCompletion updateCallback)
               = Inr currentCompletion
             \<and> calls (langgraph_parseStreamingChunk N line currentCompletion updateCallback) = [])
      \<or> (\<exists>t. t \<noteq> []
             \<and> calls (langgraph_parseStreamingChunk N line currentCompletion updateCallback)
                 = [currentCompletion @ t]
             \<and> result (langgraph_parseStreamingChunk N line currentCompletion updateCallback)
                 = Inr (if updateCallback (currentCompletion @ t) = Returns
                        then currentCompletion @ t else currentCompletion))"
    using langgraph_shape [of N line currentCompletion] by blast
  have S: "length (calls (strands_parseStreamingChunk N line currentCompletion updateCallback)) \<le> 1
   \<and> (\<forall>r. result (strands_parseStreamingChunk N line currentCompletion updateCallback) = Inr r
          \<and> r \<noteq> currentCompletion
        \<longrightarrow> calls (strands_parseStreamingChunk N line currentCompletion updateCallback) = [r])
   \<and> (\<forall>v. calls (strands_parseStreamingChunk N line currentCompletion updateCallback) = [v]
          \<and> updateCallback v = Returns
        \<longrightarrow> result (strands_parseStreamingChunk N line currentCompletion updateCallback) = Inr v)"
    using S0 by (auto split: if_splits)
  have L: "length (calls (langgraph_parseStreamingChunk N line currentCompletion updateCallback)) \<le> 1
   \<and> (\<forall>r. result (langgraph_parseStreamingChunk N line currentCompletion updateCallback) = Inr r
          \<and> r \<noteq> currentCompletion
        \<longrightarrow> calls (langgraph_parseStreamingChunk N line currentCompletion updateCallback) = [r])
   \<and> (\<forall>v. calls (langgraph_parseStreamingChunk N line currentCompletion updateCallback) = [v]
          \<and> updateCallback v = Returns
        \<longrightarrow> result (langgraph_parseStreamingChunk N line currentCompletion updateCallback) = Inr v)
   \<and> (\<forall>v. calls (langgraph_parseStreamingChunk N line currentCompletion updateCallback) = [v]
        \<longrightarrow> v \<noteq> currentCompletion)"
    using L0 by (auto split: if_splits)
  from S L strands_changed_argument [of N line currentCompletion updateCallback]
    strands_empty_printing [of line N currentCompletion updateCallback]
  show ?thesis by blast
qed

theorem callback_without_change_counterexample:
  \<open>calls (strands_parseStreamingChunk plain_numbers
       (js ''data: {"event":{"contentBlockDelta":{"delta":{"text":[]}}}}'') (js ''Hi'') never_throws)
     = [js ''Hi'']
   \<and> result (strands_parseStreamingChunk plain_numbers
       (js ''data: {"event":{"contentBlockDelta":{"delta":{"text":[]}}}}'') (js ''Hi'') never_throws)
     = Inr (js ''Hi'')\<close>
  by code_simp

theorem callback_at_most_once_witness:
  "calls (strands_parseStreamingChunk plain_numbers converse_delta_line (js ''Hi '') never_throws)
     = [js ''Hi Hello'']
   \<and> never_throws (js ''Hi Hello'') = Returns
   \<and> \<not> empty_printing_delta plain_numbers converse_delta_line
   \<and> result (strands_parseStreamingChunk plain_numbers converse_delta_line (js ''Hi '') never_throws)
     = Inr (js ''Hi Hello'')
   \<and> js ''Hi Hello'' \<noteq> js ''Hi ''
   \<and> length (calls (strands_parseStreamingChunk plain_numbers converse_delta_line (js ''Hi '')
        never_throws)) \<le> 1
   \<and> calls (strands_parseStreamingChunk plain_numbers converse_boundary_line (js ''Hi '')
        never_throws) = [js ''Hi '' @ js ''\<newline>\<newline>'']
   \<and> \<not> empty_printing_delta plain_numbers converse_boundary_line
   \<and> js ''Hi '' @ js ''\<newline>\<newline>'' \<noteq> js ''Hi ''
   \<and> startsWith converse_array_line (js ''data: '')
   \<and> empty_printing_delta plain_numbers converse_array_line
   \<and> calls (strands_parseStreamingChunk plain_numbers converse_array_line (js ''Hi '') never_throws)
     = [js ''Hi '']
   \<and> result (strands_parseStreamingChunk plain_numbers converse_array_line (js ''Hi '') never_throws)
     = Inr (js ''Hi '')
   \<and> result (langgraph_parseStreamingChunk plain_numbers langgraph_delta_line (js ''Oh. '') never_throws)
     = Inr (js ''Oh. Hi there'')
   \<and> js ''Oh. Hi there'' \<noteq> js ''Oh. ''
   \<and> calls (langgraph_parseStreamingChunk plain_numbers langgraph_delta_line (js ''Oh. '') never_throws)
     = [js ''Oh. Hi there'']
   \<and> length (calls (langgraph_parseStreamingChunk plain_numbers langgraph_delta_line (js ''Oh. '')
        never_throws)) \<le> 1"
proof -
  have c: "calls (strands_parseStreamingChunk plain_numbers converse_delta_line (js ''Hi '') never_throws)
     = [js ''Hi Hello'']"
    by code_simp
  have r: "never_throws (js ''Hi Hello'') = Returns"
    by (simp add: never_throws_def)
  have d: "\<not> empty_printing_delta plain_numbers converse_delta_line"
    by code_simp
  have b: "calls (strands_parseStreamingChunk plain_numbers converse_boundary_line (js ''Hi '')
        never_throws) = [js ''Hi '' @ js ''\<newline>\<newline>'']"
    by code_simp
  have bd: "\<not> empty_printing_delta plain_numbers converse_boundary_line"
    by code_simp
  have p: "startsWith converse_array_line (js ''data: '')"
    by code_simp
  have e: "empty_printing_delta plain_numbers converse_array_line"
    by code_simp
  have l: "result (langgraph_parseStreamingChunk plain_numbers langgraph_delta_line (js ''Oh. '') never_throws)
     = Inr (js ''Oh. Hi there'')"
    by code_simp
  have n: "js ''Oh. Hi there'' \<noteq> js ''Oh. ''"
    by (simp add: js_def)
  have i1: "result (strands_parseStreamingChunk plain_numbers converse_delta_line (js ''Hi '') never_throws)
     = Inr (js ''Hi Hello'')
   \<and> js ''Hi Hello'' \<noteq> js ''Hi ''
   \<and> length (calls (strands_parseStreamingChunk plain_numbers converse_delta_line (js ''Hi '')
        never_throws)) \<le> 1"
    using callback_at_most_once [of plain_numbers converse_delta_line "js ''Hi ''" never_throws]
      c r d by blast
  have i2: "js ''Hi '' @ js ''\<newline>\<newline>'' \<noteq> js ''Hi ''"
    using callback_at_most_once [of plain_numbers converse_boundary_line "js ''Hi ''" never_throws]
      b bd by blast
  have i3: "calls (strands_parseStreamingChunk plain_numbers converse_array_line (js ''Hi '') never_throws)
     = [js ''Hi '']
   \<and> result (strands_parseStreamingChunk plain_numbers converse_array_line (js ''Hi '') never_throws)
     = Inr (js ''Hi '')"
    using callback_at_most_once [of plain_numbers converse_array_line "js ''Hi ''" never_throws]
      p e by blast
  have i4: "calls (langgraph_parseStreamingChunk plain_numbers langgraph_delta_line (js ''Oh. '') never_throws)
     = [js ''Oh. Hi there'']
   \<and> length (calls (langgraph_parseStreamingChunk plain_numbers langgraph_delta_line (js ''Oh. '')
        never_throws)) \<le> 1"
    using callback_at_most_once [of plain_numbers langgraph_delta_line "js ''Oh. ''" never_throws]
      l n by blast
  from c r d b bd p e l n i1 i2 i3 i4 show ?thesis by blast
qed

text \<open>
  C4. A line that is empty, that consists of white space only, that does not start with
  \<open>data: \<close>, whose remainder after the prefix is empty once trimmed, or whose trimmed
  remainder JSON.parse rejects, leaves the buffer as it was in both parsers, and the
  callback is not invoked.
\<close>

theorem dropped_line_unchanged:
  assumes "line = [] \<or> (\<forall>c\<in>set line. is_white_space c)
           \<or> \<not> startsWith line (js ''data: '')
           \<or> trim (substring line 6) = []
           \<or> JSON_parse (trim (substring line 6)) = Inl SyntaxError"
  shows "result (strands_parseStreamingChunk N line currentCompletion updateCallback) = Inr currentCompletion
       \<and> calls (strands_parseStreamingChunk N line currentCompletion updateCallback) = []
       \<and> result (langgraph_parseStreamingChunk N line currentCompletion updateCallback) = Inr currentCompletion
       \<and> calls (langgraph_parseStreamingChunk N line currentCompletion updateCallback) = []"
proof -
  have failed: "JSON_parse d = Inl SyntaxError \<Longrightarrow>
      strands_try N d currentCompletion updateCallback = (Inl SyntaxError, [])
      \<and> langgraph_try N d currentCompletion updateCallback = (Inl SyntaxError, [])" for d
    by (simp add: strands_try_def langgraph_try_def)
  from assms consider
      (blank) "line = [] \<or> trim line = []"
    | (no_prefix) "\<not> startsWith line (js ''data: '')"
    | (no_data) "trim (substring line 6) = []"
    | (bad) "JSON_parse (trim (substring line 6)) = Inl SyntaxError"
    using trim_Nil_iff by blast
  then show ?thesis
  proof cases
    case blank
    then show ?thesis
      by (auto simp: strands_parseStreamingChunk_def langgraph_parseStreamingChunk_def unchanged_def)
  next
    case no_prefix
    then show ?thesis
      by (simp add: strands_parseStreamingChunk_def langgraph_parseStreamingChunk_def unchanged_def)
  next
    case no_data
    then show ?thesis
      by (simp add: strands_parseStreamingChunk_def langgraph_parseStreamingChunk_def unchanged_def)
  next
    case bad
    from failed [OF bad] show ?thesis
      by (simp add: strands_parseStreamingChunk_def langgraph_parseStreamingChunk_def
            unchanged_def Let_def try_catch_def)
  qed
qed


theorem dropped_line_unchanged_witness:
  \<open>JSON_parse (trim (substring (js ''data: {"event":'') 6)) = Inl SyntaxError
   \<and> result (strands_parseStreamingChunk plain_numbers (js ''data: {"event":'') (js ''Hello'') never_throws)
       = Inr (js ''Hello'')
   \<and> calls (strands_parseStreamingChunk plain_numbers (js ''data: {"event":'') (js ''Hello'') never_throws) = []
   \<and> result (langgraph_parseStreamingChunk plain_numbers (js ''data: {"event":'') (js ''Hello'') never_throws)
       = Inr (js ''Hello'')
   \<and> calls (langgraph_parseStreamingChunk plain_numbers (js ''data: {"event":'') (js ''Hello'') never_throws) = []
   \<and> \<not> startsWith (js ''event: ping'') (js ''data: '')
   \<and> result (strands_parseStreamingChunk plain_numbers (js ''event: ping'') (js ''Hello'') never_throws)
       = Inr (js ''Hello'')
   \<and> calls (langgraph_parseStreamingChunk plain_numbers (js ''event: ping'') (js ''Hello'') never_throws) = []\<close>
proof -
  have bad: \<open>JSON_parse (trim (substring (js ''data: {"event":'') 6)) = Inl SyntaxError\<close>
    by code_simp
  have no_prefix: "\<not> startsWith (js ''event: ping'') (js ''data: '')"
    by code_simp
  from bad no_prefix
    dropped_line_unchanged [of \<open>js ''data: {"event":''\<close> plain_numbers "js ''Hello''" never_throws]
    dropped_line_unchanged [of "js ''event: ping''" plain_numbers "js ''Hello''" never_throws]
  show ?thesis by blast
qed

section \<open>The Converse events\<close>

text \<open>
  C5. A decoded line whose \<open>event.messageStart.role\<close> is \<open>"assistant"\<close>, given to the
  Strands parser with a callback that returns: a non-empty buffer gets two line feeds
  appended, and the callback is invoked once with the result; an empty buffer is returned
  as it is, and the callback is not invoked.
\<close>

theorem strands_boundary:
  assumes "startsWith line (js ''data: '')"
    and "JSON_parse (trim (substring line 6)) = Inr json"
    and "strands_role json = Inr (Some (JString (js ''assistant'')))"
    and "updateCallback (currentCompletion @ js ''\<newline>\<newline>'') = Returns"
  shows "if currentCompletion \<noteq> []
         then result (strands_parseStreamingChunk N line currentCompletion updateCallback)
                = Inr (currentCompletion @ js ''\<newline>\<newline>'')
            \<and> calls (strands_parseStreamingChunk N line currentCompletion updateCallback)
                = [currentCompletion @ js ''\<newline>\<newline>'']
         else result (strands_parseStreamingChunk N line currentCompletion updateCallback)
                = Inr currentCompletion
            \<and> calls (strands_parseStreamingChunk N line currentCompletion updateCallback) = []"
  using assms(2-4)
  by (simp add: strands_decoded [OF assms(1,2)] strands_try_def try_catch_def
        update_and_return_def)


theorem strands_boundary_witness:
  "startsWith converse_boundary_line (js ''data: '')
   \<and> JSON_parse (trim (substring converse_boundary_line 6)) = Inr converse_boundary_json
   \<and> strands_role converse_boundary_json = Inr (Some (JString (js ''assistant'')))
   \<and> never_throws (js ''Hello world'' @ js ''\<newline>\<newline>'') = Returns
   \<and> result (strands_parseStreamingChunk plain_numbers converse_boundary_line
         (js ''Hello world'') never_throws)
       = Inr (js ''Hello world'' @ js ''\<newline>\<newline>'')
   \<and> calls (strands_parseStreamingChunk plain_numbers converse_boundary_line
         (js ''Hello world'') never_throws)
       = [js ''Hello world'' @ js ''\<newline>\<newline>'']
   \<and> never_throws ([] @ js ''\<newline>\<newline>'') = Returns
   \<and> result (strands_parseStreamingChunk plain_numbers converse_boundary_line [] never_throws)
       = Inr []
   \<and> calls (strands_parseStreamingChunk plain_numbers converse_boundary_line [] never_throws)
       = []"
proof -
  have p: "startsWith converse_boundary_line (js ''data: '')"
    by code_simp
  have d: "JSON_parse (trim (substring converse_boundary_line 6)) = Inr converse_boundary_json"
    by code_simp
  have r: "strands_role converse_boundary_json = Inr (Some (JString (js ''assistant'')))"
    by code_simp
  have c1: "never_throws (js ''Hello world'' @ js ''\<newline>\<newline>'') = Returns"
    and c2: "never_throws ([] @ js ''\<newline>\<newline>'') = Returns"
    by (simp_all add: never_throws_def)
  have ne: "js ''Hello world'' \<noteq> []"
    by (simp add: js_def)
  have full: "result (strands_parseStreamingChunk plain_numbers converse_boundary_line
         (js ''Hello world'') never_throws)
       = Inr (js ''Hello world'' @ js ''\<newline>\<newline>'')
   \<and> calls (strands_parseStreamingChunk plain_numbers converse_boundary_line
         (js ''Hello world'') never_throws)
       = [js ''Hello world'' @ js ''\<newline>\<newline>'']"
    using strands_boundary [where updateCallback = never_throws
        and currentCompletion = "js ''Hello world''" and N = plain_numbers, OF p d r c1] ne
    by (simp only: simp_thms if_True if_False)
  have empty: "result (strands_parseStreamingChunk plain_numbers converse_boundary_line [] never_throws)
       = Inr []
   \<and> calls (strands_parseStreamingChunk plain_numbers converse_boundary_line [] never_throws)
       = []"
    using strands_boundary [where updateCallback = never_throws
        and currentCompletion = "[]" and N = plain_numbers, OF p d r c2]
    by (simp only: simp_thms if_True if_False)
  from p d r c1 c2 full empty show ?thesis by blast
qed

text \<open>
  C6, as the code has it. On a decoded line that is not a boundary
  (\<open>event.messageStart.role\<close> is not \<open>"assistant"\<close>), with
  \<open>event.contentBlockDelta.delta.text\<close> read through \<open>?.\<close>:
  a non-empty string is appended as it is, and a callback that returns is invoked once
  with the result; a text that is missing, \<open>null\<close>, \<open>false\<close>, a zero or the empty
  string (and the decoded value \<open>null\<close>) leaves the buffer as it was, without the
  callback; any other text is truthy and is appended as JavaScript prints it
  (\<open>true\<close> as \<open>true\<close>), unless printing it throws, which leaves the buffer as it
  was. The test is one of truthiness, not of being a string, as the counterexample shows.
\<close>

theorem strands_delta:
  assumes "startsWith line (js ''data: '')"
    and "JSON_parse (trim (substring line 6)) = Inr json"
    and "strands_role json \<noteq> Inr (Some (JString (js ''assistant'')))"
  shows "(\<forall>t. strands_text json = Inr (Some (JString t)) \<and> t \<noteq> []
            \<and> updateCallback (currentCompletion @ t) = Returns
          \<longrightarrow> result (strands_parseStreamingChunk N line currentCompletion updateCallback)
                = Inr (currentCompletion @ t)
              \<and> calls (strands_parseStreamingChunk N line currentCompletion updateCallback)
                = [currentCompletion @ t])
       \<and> (strands_text json = Inr None \<or> strands_text json = Inr (Some JNull)
            \<or> strands_text json = Inr (Some (JBool False))
            \<or> strands_text json = Inr (Some (JString []))
            \<or> (\<exists>v. strands_text json = Inr v \<and> \<not> to_boolean N v)
            \<or> json = JNull
          \<longrightarrow> result (strands_parseStreamingChunk N line currentCompletion updateCallback)
                = Inr currentCompletion
              \<and> calls (strands_parseStreamingChunk N line currentCompletion updateCallback) = [])
       \<and> (\<forall>j t. strands_text json = Inr (Some j) \<and> to_boolean N (Some j)
            \<and> to_string N j = Inr t \<and> updateCallback (currentCompletion @ t) = Returns
          \<longrightarrow> result (strands_parseStreamingChunk N line currentCompletion updateCallback)
                = Inr (currentCompletion @ t)
              \<and> calls (strands_parseStreamingChunk N line currentCompletion updateCallback)
                = [currentCompletion @ t])
       \<and> (\<forall>j e. strands_text json = Inr (Some j) \<and> to_boolean N (Some j)
            \<and> to_string N j = Inl e
          \<longrightarrow> result (strands_parseStreamingChunk N line currentCompletion updateCallback)
                = Inr currentCompletion
              \<and> calls (strands_parseStreamingChunk N line currentCompletion updateCallback) = [])"
proof -
  note eq = strands_decoded [OF assms(1,2)] strands_not_boundary [OF assms(2,3)]
  have falsy: "result (strands_parseStreamingChunk N line currentCompletion updateCallback)
                = Inr currentCompletion
              \<and> calls (strands_parseStreamingChunk N line currentCompletion updateCallback) = []"
    if "strands_text json = Inr v" "\<not> to_boolean N v" for v
    using that unfolding eq by (simp add: try_catch_def)
  have null: "result (strands_parseStreamingChunk N line currentCompletion updateCallback)
                = Inr currentCompletion
              \<and> calls (strands_parseStreamingChunk N line currentCompletion updateCallback) = []"
    if "json = JNull"
    using that unfolding eq by (simp add: try_catch_def strands_text_def member_def)
  have truthy: "result (strands_parseStreamingChunk N line currentCompletion updateCallback)
                = Inr (currentCompletion @ t)
              \<and> calls (strands_parseStreamingChunk N line currentCompletion updateCallback)
                = [currentCompletion @ t]"
    if "strands_text json = Inr (Some j)" "to_boolean N (Some j)" "to_string N j = Inr t"
      "updateCallback (currentCompletion @ t) = Returns" for j t
    using that unfolding eq
    by (simp add: try_catch_def string_plus_def update_and_return_def)
  have throws: "result (strands_parseStreamingChunk N line currentCompletion updateCallback)
                = Inr currentCompletion
              \<and> calls (strands_parseStreamingChunk N line currentCompletion updateCallback) = []"
    if "strands_text json = Inr (Some j)" "to_boolean N (Some j)" "to_string N j = Inl e" for j e
    using that unfolding eq
    by (simp add: try_catch_def string_plus_def)
  have f: "\<not> to_boolean N None" "\<not> to_boolean N (Some JNull)" "\<not> to_boolean N (Some (JBool False))"
    "\<not> to_boolean N (Some (JString []))"
    by (simp_all add: to_boolean_def)
  have s: "to_boolean N (Some (JString t))" "to_string N (JString t) = Inr t" if "t \<noteq> []" for t
    using that by (simp_all add: to_boolean_def)
  show ?thesis
    using falsy null truthy throws f s by blast
qed

theorem non_string_delta_counterexample:
  \<open>strands_text (JObject [(js ''event'', JObject [(js ''contentBlockDelta'',
       JObject [(js ''delta'', JObject [(js ''text'', JBool True)])])])]) = Inr (Some (JBool True))
   \<and> JSON_parse (js ''{"event":{"contentBlockDelta":{"delta":{"text":true}}}}'')
       = Inr (JObject [(js ''event'', JObject [(js ''contentBlockDelta'',
           JObject [(js ''delta'', JObject [(js ''text'', JBool True)])])])])
   \<and> result (strands_parseStreamingChunk plain_numbers
         (js ''data: {"event":{"contentBlockDelta":{"delta":{"text":true}}}}'') (js ''Hi'') never_throws)
       = Inr (js ''Hitrue'')
   \<and> calls (strands_parseStreamingChunk plain_numbers
         (js ''data: {"event":{"contentBlockDelta":{"delta":{"text":true}}}}'') (js ''Hi'') never_throws)
       = [js ''Hitrue'']\<close>
  by code_simp


theorem strands_delta_witness:
  "startsWith converse_delta_line (js ''data: '')
   \<and> JSON_parse (trim (substring converse_delta_line 6)) = Inr converse_delta_json
   \<and> strands_role converse_delta_json \<noteq> Inr (Some (JString (js ''assistant'')))
   \<and> strands_text converse_delta_json = Inr (Some (JString (js ''Hello'')))
   \<and> js ''Hello'' \<noteq> []
   \<and> never_throws (js ''Hi '' @ js ''Hello'') = Returns
   \<and> result (strands_parseStreamingChunk plain_numbers converse_delta_line (js ''Hi '') never_throws)
       = Inr (js ''Hi '' @ js ''Hello'')
   \<and> calls (strands_parseStreamingChunk plain_numbers converse_delta_line (js ''Hi '') never_throws)
       = [js ''Hi '' @ js ''Hello'']
   \<and> startsWith converse_user_line (js ''data: '')
   \<and> JSON_parse (trim (substring converse_user_line 6)) = Inr converse_user_json
   \<and> strands_role converse_user_json \<noteq> Inr (Some (JString (js ''assistant'')))
   \<and> strands_text converse_user_json = Inr None
   \<and> result (strands_parseStreamingChunk plain_numbers converse_user_line (js ''Hi '') never_throws)
       = Inr (js ''Hi '')
   \<and> calls (strands_parseStreamingChunk plain_numbers converse_user_line (js ''Hi '') never_throws)
       = []
   \<and> startsWith converse_true_line (js ''data: '')
   \<and> JSON_parse (trim (substring converse_true_line 6)) = Inr converse_true_json
   \<and> strands_role converse_true_json \<noteq> Inr (Some (JString (js ''assistant'')))
   \<and> strands_text converse_true_json = Inr (Some (JBool True))
   \<and> to_boolean plain_numbers (Some (JBool True))
   \<and> to_string plain_numbers (JBool True) = Inr (js ''true'')
   \<and> never_throws (js ''Hi '' @ js ''true'') = Returns
   \<and> result (strands_parseStreamingChunk plain_numbers converse_true_line (js ''Hi '') never_throws)
       = Inr (js ''Hi '' @ js ''true'')
   \<and> calls (strands_parseStreamingChunk plain_numbers converse_true_line (js ''Hi '') never_throws)
       = [js ''Hi '' @ js ''true'']
   \<and> startsWith converse_object_line (js ''data: '')
   \<and> JSON_parse (trim (substring converse_object_line 6)) = Inr converse_object_json
   \<and> strands_role converse_object_json \<noteq> Inr (Some (JString (js ''assistant'')))
   \<and> strands_text converse_object_json = Inr (Some (JObject [(js ''toString'', JString (js ''x''))]))
   \<and> to_boolean plain_numbers (Some (JObject [(js ''toString'', JString (js ''x''))]))
   \<and> to_string plain_numbers (JObject [(js ''toString'', JString (js ''x''))]) = Inl TypeError
   \<and> result (strands_parseStreamingChunk plain_numbers converse_object_line (js ''Hi '') never_throws)
       = Inr (js ''Hi '')
   \<and> calls (strands_parseStreamingChunk plain_numbers converse_object_line (js ''Hi '') never_throws)
       = []"
proof -
  have p1: "startsWith converse_delta_line (js ''data: '')"
    and d1: "JSON_parse (trim (substring converse_delta_line 6)) = Inr converse_delta_json"
    and r1: "strands_role converse_delta_json \<noteq> Inr (Some (JString (js ''assistant'')))"
    and t1: "strands_text converse_delta_json = Inr (Some (JString (js ''Hello'')))"
    by code_simp+
  have n1: "js ''Hello'' \<noteq> []"
    by (simp add: js_def)
  have c1: "never_throws (js ''Hi '' @ js ''Hello'') = Returns"
    by (simp add: never_throws_def)
  have p2: "startsWith converse_user_line (js ''data: '')"
    and d2: "JSON_parse (trim (substring converse_user_line 6)) = Inr converse_user_json"
    and r2: "strands_role converse_user_json \<noteq> Inr (Some (JString (js ''assistant'')))"
    and t2: "strands_text converse_user_json = Inr None"
    by code_simp+
  have p3: "startsWith converse_true_line (js ''data: '')"
    and d3: "JSON_parse (trim (substring converse_true_line 6)) = Inr converse_true_json"
    and r3: "strands_role converse_true_json \<noteq> Inr (Some (JString (js ''assistant'')))"
    and t3: "strands_text converse_true_json = Inr (Some (JBool True))"
    and b3: "to_boolean plain_numbers (Some (JBool True))"
    and s3: "to_string plain_numbers (JBool True) = Inr (js ''true'')"
    by code_simp+
  have c3: "never_throws (js ''Hi '' @ js ''true'') = Returns"
    by (simp add: never_throws_def)
  have p4: "startsWith converse_object_line (js ''data: '')"
    and d4: "JSON_parse (trim (substring converse_object_line 6)) = Inr converse_object_json"
    and r4: "strands_role converse_object_json \<noteq> Inr (Some (JString (js ''assistant'')))"
    and t4: "strands_text converse_object_json
             = Inr (Some (JObject [(js ''toString'', JString (js ''x''))]))"
    and b4: "to_boolean plain_numbers (Some (JObject [(js ''toString'', JString (js ''x''))]))"
    and s4: "to_string plain_numbers (JObject [(js ''toString'', JString (js ''x''))]) = Inl TypeError"
    by code_simp+
  have i1: "result (strands_parseStreamingChunk plain_numbers converse_delta_line (js ''Hi '') never_throws)
       = Inr (js ''Hi '' @ js ''Hello'')
   \<and> calls (strands_parseStreamingChunk plain_numbers converse_delta_line (js ''Hi '') never_throws)
       = [js ''Hi '' @ js ''Hello'']"
    using strands_delta [OF p1 d1 r1, of never_throws "js ''Hi ''" plain_numbers] t1 n1 c1
    by blast
  have i2: "result (strands_parseStreamingChunk plain_numbers converse_user_line (js ''Hi '') never_throws)
       = Inr (js ''Hi '')
   \<and> calls (strands_parseStreamingChunk plain_numbers converse_user_line (js ''Hi '') never_throws)
       = []"
    using strands_delta [OF p2 d2 r2, of never_throws "js ''Hi ''" plain_numbers] t2
    by blast
  have i3: "result (strands_parseStreamingChunk plain_numbers converse_true_line (js ''Hi '') never_throws)
       = Inr (js ''Hi '' @ js ''true'')
   \<and> calls (strands_parseStreamingChunk plain_numbers converse_true_line (js ''Hi '') never_throws)
       = [js ''Hi '' @ js ''true'']"
    using strands_delta [OF p3 d3 r3, of never_throws "js ''Hi ''" plain_numbers] t3 b3 s3 c3
    by blast
  have i4: "result (strands_parseStreamingChunk plain_numbers converse_object_line (js ''Hi '') never_throws)
       = Inr (js ''Hi '')
   \<and> calls (strands_parseStreamingChunk plain_numbers converse_object_line (js ''Hi '') never_throws)
       = []"
    using strands_delta [OF p4 d4 r4, of never_throws "js ''Hi ''" plain_numbers] t4 b4 s4
    by blast
  from i1 i2 i3 i4 p1 d1 r1 t1 n1 c1 p2 d2 r2 t2 p3 d3 r3 t3 b3 s3 c3 p4 d4 r4 t4 b4 s4
  show ?thesis by blast
qed

section \<open>The AIMessageChunk events\<close>

text \<open>
  C7, as the code has it. On a decoded AIMessageChunk whose content is a non-empty
  array with no \<open>null\<close> element, the parser keeps the blocks whose \<open>type\<close> is
  \<open>"text"\<close> and whose \<open>text\<close> is truthy, and concatenates their texts, as JavaScript
  prints them, in order with nothing between them. If the concatenation is not empty,
  the callback is invoked once with the buffer extended by it, which is returned when the
  callback returns; if it is empty, or if printing a text throws, the buffer stays and the
  callback is not invoked. When an element is \<open>null\<close>, reading its \<open>type\<close> throws in
  the filter: the buffer stays and the callback is not invoked, whatever the other blocks
  hold (the counterexample). When every text is absent or a string, the concatenation is
  that of the texts that are present.
\<close>

theorem langgraph_delta:
  assumes "startsWith line (js ''data: '')"
    and "JSON_parse (trim (substring line 6)) = Inr json"
    and "property json (js ''type'') = Some (JString (js ''AIMessageChunk''))"
    and "property json (js ''content'') = Some (JArray content)"
    and "content \<noteq> []"
  shows "(\<forall>t. JNull \<notin> set content
            \<and> concatenation N (filter (kept_block N) content) = Inr t \<and> t \<noteq> []
          \<longrightarrow> calls (langgraph_parseStreamingChunk N line currentCompletion updateCallback)
                = [currentCompletion @ t]
              \<and> (updateCallback (currentCompletion @ t) = Returns
                 \<longrightarrow> result (langgraph_parseStreamingChunk N line currentCompletion updateCallback)
                       = Inr (currentCompletion @ t)))
       \<and> (JNull \<notin> set content
            \<and> concatenation N (filter (kept_block N) content) = Inr []
          \<longrightarrow> result (langgraph_parseStreamingChunk N line currentCompletion updateCallback)
                = Inr currentCompletion
              \<and> calls (langgraph_parseStreamingChunk N line currentCompletion updateCallback) = [])
       \<and> (\<forall>e. JNull \<notin> set content
            \<and> concatenation N (filter (kept_block N) content) = Inl e
          \<longrightarrow> result (langgraph_parseStreamingChunk N line currentCompletion updateCallback)
                = Inr currentCompletion
              \<and> calls (langgraph_parseStreamingChunk N line currentCompletion updateCallback) = [])
       \<and> (JNull \<in> set content
          \<longrightarrow> result (langgraph_parseStreamingChunk N line currentCompletion updateCallback)
                = Inr currentCompletion
              \<and> calls (langgraph_parseStreamingChunk N line currentCompletion updateCallback) = [])
       \<and> (string_texts content
          \<longrightarrow> concatenation N (filter (kept_block N) content) = Inr (concatenated_text content))"
proof -
  have body: "langgraph_try N (trim (substring line 6)) currentCompletion updateCallback
      = (case text_content N content of
           Inl e \<Rightarrow> (Inl e, [])
         | Inr textContent \<Rightarrow>
             if textContent \<noteq> [] then
               update_and_return updateCallback (currentCompletion @ textContent)
             else (Inr currentCompletion, []))"
    using assms(2,5) member_property [OF assms(3)] member_property [OF assms(4)]
    by (simp add: langgraph_try_def)
  note eq = langgraph_decoded [OF assms(1,2)] body
  have appended: "calls (langgraph_parseStreamingChunk N line currentCompletion updateCallback)
                = [currentCompletion @ t]
              \<and> (updateCallback (currentCompletion @ t) = Returns
                 \<longrightarrow> result (langgraph_parseStreamingChunk N line currentCompletion updateCallback)
                       = Inr (currentCompletion @ t))"
    if "JNull \<notin> set content" "concatenation N (filter (kept_block N) content) = Inr t" "t \<noteq> []"
    for t
    unfolding eq text_content_concatenation [OF that(1)] using that(2,3)
    by (simp add: try_catch_def update_and_return_cases)
  have empty: "result (langgraph_parseStreamingChunk N line currentCompletion updateCallback)
                = Inr currentCompletion
              \<and> calls (langgraph_parseStreamingChunk N line currentCompletion updateCallback) = []"
    if "JNull \<notin> set content" "concatenation N (filter (kept_block N) content) = Inr []"
    unfolding eq text_content_concatenation [OF that(1)] using that(2)
    by (simp add: try_catch_def)
  have throws: "result (langgraph_parseStreamingChunk N line currentCompletion updateCallback)
                = Inr currentCompletion
              \<and> calls (langgraph_parseStreamingChunk N line currentCompletion updateCallback) = []"
    if "JNull \<notin> set content" "concatenation N (filter (kept_block N) content) = Inl e" for e
    unfolding eq text_content_concatenation [OF that(1)] using that(2)
    by (simp add: try_catch_def)
  have null: "result (langgraph_parseStreamingChunk N line currentCompletion updateCallback)
                = Inr currentCompletion
              \<and> calls (langgraph_parseStreamingChunk N line currentCompletion updateCallback) = []"
    if "JNull \<in> set content"
  proof -
    from text_content_null [OF that] obtain e where "text_content N content = Inl e" ..
    then show ?thesis
      unfolding eq by (simp add: try_catch_def)
  qed
  from appended empty throws null concatenation_strings show ?thesis by blast
qed

theorem langgraph_delta_witness:
  "startsWith langgraph_delta_line (js ''data: '')
   \<and> JSON_parse (trim (substring langgraph_delta_line 6)) = Inr langgraph_delta_json
   \<and> property langgraph_delta_json (js ''type'') = Some (JString (js ''AIMessageChunk''))
   \<and> property langgraph_delta_json (js ''content'') = Some (JArray langgraph_delta_content)
   \<and> langgraph_delta_content \<noteq> []
   \<and> JNull \<notin> set langgraph_delta_content
   \<and> concatenation plain_numbers (filter (kept_block plain_numbers) langgraph_delta_content)
       = Inr (js ''Hi there'')
   \<and> js ''Hi there'' \<noteq> []
   \<and> string_texts langgraph_delta_content
   \<and> Inr (js ''Hi there'') = Inr (concatenated_text langgraph_delta_content)
   \<and> never_throws (js ''Oh. '' @ js ''Hi there'') = Returns
   \<and> result (langgraph_parseStreamingChunk plain_numbers langgraph_delta_line (js ''Oh. '')
         never_throws) = Inr (js ''Oh. '' @ js ''Hi there'')
   \<and> calls (langgraph_parseStreamingChunk plain_numbers langgraph_delta_line (js ''Oh. '')
         never_throws) = [js ''Oh. '' @ js ''Hi there'']
   \<and> startsWith langgraph_mixed_line (js ''data: '')
   \<and> JSON_parse (trim (substring langgraph_mixed_line 6)) = Inr langgraph_mixed_json
   \<and> property langgraph_mixed_json (js ''type'') = Some (JString (js ''AIMessageChunk''))
   \<and> property langgraph_mixed_json (js ''content'') = Some (JArray langgraph_mixed_content)
   \<and> langgraph_mixed_content \<noteq> []
   \<and> JNull \<notin> set langgraph_mixed_content
   \<and> concatenation plain_numbers (filter (kept_block plain_numbers) langgraph_mixed_content)
       = Inr (js ''true!'')
   \<and> js ''true!'' \<noteq> []
   \<and> never_throws (js ''A'' @ js ''true!'') = Returns
   \<and> result (langgraph_parseStreamingChunk plain_numbers langgraph_mixed_line (js ''A'')
         never_throws) = Inr (js ''A'' @ js ''true!'')
   \<and> calls (langgraph_parseStreamingChunk plain_numbers langgraph_mixed_line (js ''A'')
         never_throws) = [js ''A'' @ js ''true!'']
   \<and> startsWith langgraph_tool_line (js ''data: '')
   \<and> JSON_parse (trim (substring langgraph_tool_line 6)) = Inr langgraph_tool_json
   \<and> property langgraph_tool_json (js ''type'') = Some (JString (js ''AIMessageChunk''))
   \<and> property langgraph_tool_json (js ''content'') = Some (JArray langgraph_tool_content)
   \<and> langgraph_tool_content \<noteq> []
   \<and> JNull \<notin> set langgraph_tool_content
   \<and> concatenation plain_numbers (filter (kept_block plain_numbers) langgraph_tool_content)
       = Inr []
   \<and> result (langgraph_parseStreamingChunk plain_numbers langgraph_tool_line (js ''A'')
         always_throws) = Inr (js ''A'')
   \<and> calls (langgraph_parseStreamingChunk plain_numbers langgraph_tool_line (js ''A'')
         always_throws) = []
   \<and> startsWith langgraph_object_line (js ''data: '')
   \<and> JSON_parse (trim (substring langgraph_object_line 6)) = Inr langgraph_object_json
   \<and> property langgraph_object_json (js ''type'') = Some (JString (js ''AIMessageChunk''))
   \<and> property langgraph_object_json (js ''content'') = Some (JArray langgraph_object_content)
   \<and> langgraph_object_content \<noteq> []
   \<and> JNull \<notin> set langgraph_object_content
   \<and> concatenation plain_numbers (filter (kept_block plain_numbers) langgraph_object_content)
       = Inl TypeError
   \<and> result (langgraph_parseStreamingChunk plain_numbers langgraph_object_line (js ''A'')
         never_throws) = Inr (js ''A'')
   \<and> calls (langgraph_parseStreamingChunk plain_numbers langgraph_object_line (js ''A'')
         never_throws) = []
   \<and> startsWith langgraph_null_line (js ''data: '')
   \<and> JSON_parse (trim (substring langgraph_null_line 6)) = Inr langgraph_null_json
   \<and> property langgraph_null_json (js ''type'') = Some (JString (js ''AIMessageChunk''))
   \<and> property langgraph_null_json (js ''content'') = Some (JArray langgraph_null_content)
   \<and> langgraph_null_content \<noteq> []
   \<and> JNull \<in> set langgraph_null_content
   \<and> result (langgraph_parseStreamingChunk plain_numbers langgraph_null_line (js ''Oh. '')
         never_throws) = Inr (js ''Oh. '')
   \<and> calls (langgraph_parseStreamingChunk plain_numbers langgraph_null_line (js ''Oh. '')
         never_throws) = []"
proof -
  have p1: "startsWith langgraph_delta_line (js ''data: '')"
    and d1: "JSON_parse (trim (substring langgraph_delta_line 6)) = Inr langgraph_delta_json"
    and t1: "property langgraph_delta_json (js ''type'') = Some (JString (js ''AIMessageChunk''))"
    and a1: "property langgraph_delta_json (js ''content'') = Some (JArray langgraph_delta_content)"
    and k1: "concatenation plain_numbers (filter (kept_block plain_numbers) langgraph_delta_content)
       = Inr (js ''Hi there'')"
    and s1: "string_texts langgraph_delta_content"
    by code_simp+
  have n1: "langgraph_delta_content \<noteq> []" and m1: "JNull \<notin> set langgraph_delta_content"
    by (simp_all add: langgraph_delta_content_def)
  have e1: "js ''Hi there'' \<noteq> []"
    by (simp add: js_def)
  have r1: "never_throws (js ''Oh. '' @ js ''Hi there'') = Returns"
    by (simp add: never_throws_def)
  have p2: "startsWith langgraph_mixed_line (js ''data: '')"
    and d2: "JSON_parse (trim (substring langgraph_mixed_line 6)) = Inr langgraph_mixed_json"
    and t2: "property langgraph_mixed_json (js ''type'') = Some (JString (js ''AIMessageChunk''))"
    and a2: "property langgraph_mixed_json (js ''content'') = Some (JArray langgraph_mixed_content)"
    and k2: "concatenation plain_numbers (filter (kept_block plain_numbers) langgraph_mixed_content)
       = Inr (js ''true!'')"
    by code_simp+
  have n2: "langgraph_mixed_content \<noteq> []" and m2: "JNull \<notin> set langgraph_mixed_content"
    by (simp_all add: langgraph_mixed_content_def)
  have e2: "js ''true!'' \<noteq> []"
    by (simp add: js_def)
  have r2: "never_throws (js ''A'' @ js ''true!'') = Returns"
    by (simp add: never_throws_def)
  have p3: "startsWith langgraph_tool_line (js ''data: '')"
    and d3: "JSON_parse (trim (substring langgraph_tool_line 6)) = Inr langgraph_tool_json"
    and t3: "property langgraph_tool_json (js ''type'') = Some (JString (js ''AIMessageChunk''))"
    and a3: "property langgraph_tool_json (js ''content'') = Some (JArray langgraph_tool_content)"
    and k3: "concatenation plain_numbers (filter (kept_block plain_numbers) langgraph_tool_content)
       = Inr []"
    by code_simp+
  have n3: "langgraph_tool_content \<noteq> []" and m3: "JNull \<notin> set langgraph_tool_content"
    by (simp_all add: langgraph_tool_content_def)
  have p4: "startsWith langgraph_object_line (js ''data: '')"
    and d4: "JSON_parse (trim (substring langgraph_object_line 6)) = Inr langgraph_object_json"
    and t4: "property langgraph_object_json (js ''type'') = Some (JString (js ''AIMessageChunk''))"
    and a4: "property langgraph_object_json (js ''content'') = Some (JArray langgraph_object_content)"
    and k4: "concatenation plain_numbers (filter (kept_block plain_numbers) langgraph_object_content)
       = Inl TypeError"
    by code_simp+
  have n4: "langgraph_object_content \<noteq> []" and m4: "JNull \<notin> set langgraph_object_content"
    by (simp_all add: langgraph_object_content_def)
  have p5: "startsWith langgraph_null_line (js ''data: '')"
    and d5: "JSON_parse (trim (substring langgraph_null_line 6)) = Inr langgraph_null_json"
    and t5: "property langgraph_null_json (js ''type'') = Some (JString (js ''AIMessageChunk''))"
    and a5: "property langgraph_null_json (js ''content'') = Some (JArray langgraph_null_content)"
    by code_simp+
  have n5: "langgraph_null_content \<noteq> []" and m5: "JNull \<in> set langgraph_null_content"
    by (simp_all add: langgraph_null_content_def)
  note th1 = langgraph_delta [where N = plain_numbers and updateCallback = never_throws
        and currentCompletion = "js ''Oh. ''", OF p1 d1 t1 a1 n1]
  have i1: "result (langgraph_parseStreamingChunk plain_numbers langgraph_delta_line (js ''Oh. '')
         never_throws) = Inr (js ''Oh. '' @ js ''Hi there'')
   \<and> calls (langgraph_parseStreamingChunk plain_numbers langgraph_delta_line (js ''Oh. '')
         never_throws) = [js ''Oh. '' @ js ''Hi there'']"
    using th1 m1 k1 e1 r1 by blast
  have j1: "Inr (js ''Hi there'') = Inr (concatenated_text langgraph_delta_content)"
    using th1 s1 k1 by simp
  have i2: "result (langgraph_parseStreamingChunk plain_numbers langgraph_mixed_line (js ''A'')
         never_throws) = Inr (js ''A'' @ js ''true!'')
   \<and> calls (langgraph_parseStreamingChunk plain_numbers langgraph_mixed_line (js ''A'')
         never_throws) = [js ''A'' @ js ''true!'']"
    using langgraph_delta [where N = plain_numbers and updateCallback = never_throws
        and currentCompletion = "js ''A''", OF p2 d2 t2 a2 n2]
      m2 k2 e2 r2 by blast
  have i3: "result (langgraph_parseStreamingChunk plain_numbers langgraph_tool_line (js ''A'')
         always_throws) = Inr (js ''A'')
   \<and> calls (langgraph_parseStreamingChunk plain_numbers langgraph_tool_line (js ''A'')
         always_throws) = []"
    using langgraph_delta [where N = plain_numbers and updateCallback = always_throws
        and currentCompletion = "js ''A''", OF p3 d3 t3 a3 n3]
      m3 k3 by blast
  have i4: "result (langgraph_parseStreamingChunk plain_numbers langgraph_object_line (js ''A'')
         never_throws) = Inr (js ''A'')
   \<and> calls (langgraph_parseStreamingChunk plain_numbers langgraph_object_line (js ''A'')
         never_throws) = []"
    using langgraph_delta [where N = plain_numbers and updateCallback = never_throws
        and currentCompletion = "js ''A''", OF p4 d4 t4 a4 n4]
      m4 k4 by blast
  have i5: "result (langgraph_parseStreamingChunk plain_numbers langgraph_null_line (js ''Oh. '')
         never_throws) = Inr (js ''Oh. '')
   \<and> calls (langgraph_parseStreamingChunk plain_numbers langgraph_null_line (js ''Oh. '')
         never_throws) = []"
    using langgraph_delta [where N = plain_numbers and updateCallback = never_throws
        and currentCompletion = "js ''Oh. ''", OF p5 d5 t5 a5 n5] m5
    by blast
  from p1 d1 t1 a1 n1 m1 k1 e1 s1 j1 r1 i1 p2 d2 t2 a2 n2 m2 k2 e2 r2 i2
    p3 d3 t3 a3 n3 m3 k3 i3 p4 d4 t4 a4 n4 m4 k4 i4 p5 d5 t5 a5 n5 m5 i5
  show ?thesis by blast
qed

theorem null_block_counterexample:
  \<open>JSON_parse (js ''{"type":"AIMessageChunk","content":[null,{"type":"text","text":"Hi"}]}'')
     = Inr (JObject [(js ''type'', JString (js ''AIMessageChunk'')),
         (js ''content'', JArray [JNull,
            JObject [(js ''type'', JString (js ''text'')), (js ''text'', JString (js ''Hi''))]])])
   \<and> result (langgraph_parseStreamingChunk plain_numbers
       (js ''data: {"type":"AIMessageChunk","content":[null,{"type":"text","text":"Hi"}]}'')
       (js ''A'') never_throws) = Inr (js ''A'')
   \<and> calls (langgraph_parseStreamingChunk plain_numbers
       (js ''data: {"type":"AIMessageChunk","content":[null,{"type":"text","text":"Hi"}]}'')
       (js ''A'') never_throws) = []\<close>
  by code_simp

text \<open>
  C8, as the code has it. The two blocks of the example carry no \<open>type\<close>, and the
  filter drops them: the call returns the empty buffer (the counterexample). With
  \<open>"type":"text"\<close> in both blocks the call returns \<open>Hi there\<close>, the two texts with
  nothing between them.
\<close>

theorem langgraph_two_text_blocks:
  \<open>result (langgraph_parseStreamingChunk N
       (js ''data: {"type":"AIMessageChunk","content":[{"type":"text","text":"Hi"},{"type":"text","text":" there"}]}'')
       [] never_throws) = Inr (js ''Hi there'')
   \<and> calls (langgraph_parseStreamingChunk N
       (js ''data: {"type":"AIMessageChunk","content":[{"type":"text","text":"Hi"},{"type":"text","text":" there"}]}'')
       [] never_throws) = [js ''Hi there'']\<close>
  by code_simp

theorem untyped_blocks_counterexample:
  \<open>result (langgraph_parseStreamingChunk plain_numbers
       (js ''data: {"type":"AIMessageChunk","content":[{"text":"Hi"},{"text":" there"}]}'')
       [] never_throws) = Inr []
   \<and> result (langgraph_parseStreamingChunk plain_numbers
       (js ''data: {"type":"AIMessageChunk","content":[{"text":"Hi"},{"text":" there"}]}'')
       [] never_throws) \<noteq> Inr (js ''Hi there'')
   \<and> calls (langgraph_parseStreamingChunk plain_numbers
       (js ''data: {"type":"AIMessageChunk","content":[{"text":"Hi"},{"text":" there"}]}'')
       [] never_throws) = []\<close>
  by code_simp

text \<open>
  C9. For every buffer and every callback, an AIMessageChunk line whose content is the
  empty array does in the LangGraph parser what a line with
  \<open>event.messageStart.role = "assistant"\<close> does in the Strands parser: the same returned
  value and the same invocations of the callback, which are those of the boundary rule
  (the separator appended and one invocation when the buffer is not empty, nothing
  otherwise); the returned value is that of the rule when the callback returns.
\<close>

theorem boundary_same_in_both_parsers:
  assumes "startsWith lineL (js ''data: '')"
    and "JSON_parse (trim (substring lineL 6)) = Inr jsonL"
    and "property jsonL (js ''type'') = Some (JString (js ''AIMessageChunk''))"
    and "property jsonL (js ''content'') = Some (JArray [])"
    and "startsWith lineS (js ''data: '')"
    and "JSON_parse (trim (substring lineS 6)) = Inr jsonS"
    and "strands_role jsonS = Inr (Some (JString (js ''assistant'')))"
  shows "result (langgraph_parseStreamingChunk N lineL currentCompletion updateCallback)
           = result (strands_parseStreamingChunk N lineS currentCompletion updateCallback)
       \<and> calls (langgraph_parseStreamingChunk N lineL currentCompletion updateCallback)
           = calls (strands_parseStreamingChunk N lineS currentCompletion updateCallback)
       \<and> calls (langgraph_parseStreamingChunk N lineL currentCompletion updateCallback)
           = snd (boundary_rule currentCompletion)
       \<and> (currentCompletion = []
            \<or> updateCallback (currentCompletion @ js ''\<newline>\<newline>'') = Returns
          \<longrightarrow> result (langgraph_parseStreamingChunk N lineL currentCompletion updateCallback)
                = Inr (fst (boundary_rule currentCompletion)))"
proof -
  have L: "langgraph_try N (trim (substring lineL 6)) currentCompletion updateCallback
      = (if currentCompletion \<noteq> []
         then update_and_return updateCallback (currentCompletion @ js ''\<newline>\<newline>'')
         else (Inr currentCompletion, []))"
    using assms(2) member_property [OF assms(3)] member_property [OF assms(4)]
    by (simp add: langgraph_try_def)
  have S: "strands_try N (trim (substring lineS 6)) currentCompletion updateCallback
      = (if currentCompletion \<noteq> []
         then update_and_return updateCallback (currentCompletion @ js ''\<newline>\<newline>'')
         else (Inr currentCompletion, []))"
    using assms(6,7) by (simp add: strands_try_def)
  show ?thesis
    unfolding langgraph_decoded [OF assms(1,2)] strands_decoded [OF assms(5,6)] L S
    by (simp add: try_catch_def update_and_return_cases boundary_rule_def)
qed

theorem boundary_same_in_both_parsers_witness:
  "startsWith langgraph_boundary_line (js ''data: '')
   \<and> JSON_parse (trim (substring langgraph_boundary_line 6)) = Inr langgraph_boundary_json
   \<and> property langgraph_boundary_json (js ''type'') = Some (JString (js ''AIMessageChunk''))
   \<and> property langgraph_boundary_json (js ''content'') = Some (JArray [])
   \<and> startsWith converse_boundary_line (js ''data: '')
   \<and> JSON_parse (trim (substring converse_boundary_line 6)) = Inr converse_boundary_json
   \<and> strands_role converse_boundary_json = Inr (Some (JString (js ''assistant'')))
   \<and> never_throws (js ''Hello world'' @ js ''\<newline>\<newline>'') = Returns
   \<and> result (langgraph_parseStreamingChunk plain_numbers langgraph_boundary_line
         (js ''Hello world'') never_throws)
       = result (strands_parseStreamingChunk plain_numbers converse_boundary_line
         (js ''Hello world'') never_throws)
   \<and> calls (langgraph_parseStreamingChunk plain_numbers langgraph_boundary_line
         (js ''Hello world'') never_throws)
       = calls (strands_parseStreamingChunk plain_numbers converse_boundary_line
         (js ''Hello world'') never_throws)
   \<and> calls (langgraph_parseStreamingChunk plain_numbers langgraph_boundary_line
         (js ''Hello world'') never_throws)
       = snd (boundary_rule (js ''Hello world''))
   \<and> result (langgraph_parseStreamingChunk plain_numbers langgraph_boundary_line
         (js ''Hello world'') never_throws)
       = Inr (fst (boundary_rule (js ''Hello world'')))"
proof -
  have l1: "startsWith langgraph_boundary_line (js ''data: '')"
    by code_simp
  have l2: "JSON_parse (trim (substring langgraph_boundary_line 6)) = Inr langgraph_boundary_json"
    by code_simp
  have l3: "property langgraph_boundary_json (js ''type'') = Some (JString (js ''AIMessageChunk''))"
    by code_simp
  have l4: "property langgraph_boundary_json (js ''content'') = Some (JArray [])"
    by code_simp
  have s1: "startsWith converse_boundary_line (js ''data: '')"
    by code_simp
  have s2: "JSON_parse (trim (substring converse_boundary_line 6)) = Inr converse_boundary_json"
    by code_simp
  have s3: "strands_role converse_boundary_json = Inr (Some (JString (js ''assistant'')))"
    by code_simp
  have c: "never_throws (js ''Hello world'' @ js ''\<newline>\<newline>'') = Returns"
    by (simp add: never_throws_def)
  from boundary_same_in_both_parsers [OF l1 l2 l3 l4 s1 s2 s3,
      of plain_numbers "js ''Hello world''" never_throws] l1 l2 l3 l4 s1 s2 s3 c
  show ?thesis by blast
qed

section \<open>A callback that throws\<close>

text \<open>
  C10. The \<open>try\<close> block encloses the invocation of the callback. When a call would
  change the buffer (with a callback that returns it gives \<open>new\<close>, different from the
  buffer) and the callback throws on \<open>new\<close>, the exception is swallowed: the call returns
  the old buffer, although the callback was invoked, once, with the longer \<open>new\<close>.
\<close>

theorem callback_exception_swallowed:
  "(result (strands_parseStreamingChunk N line currentCompletion never_throws) = Inr new
      \<and> new \<noteq> currentCompletion \<and> updateCallback new = Throws
    \<longrightarrow> result (strands_parseStreamingChunk N line currentCompletion updateCallback)
          = Inr currentCompletion
        \<and> calls (strands_parseStreamingChunk N line currentCompletion updateCallback) = [new]
        \<and> strict_prefix currentCompletion new)
   \<and> (result (langgraph_parseStreamingChunk N line currentCompletion never_throws) = Inr new
      \<and> new \<noteq> currentCompletion \<and> updateCallback new = Throws
    \<longrightarrow> result (langgraph_parseStreamingChunk N line currentCompletion updateCallback)
          = Inr currentCompletion
        \<and> calls (langgraph_parseStreamingChunk N line currentCompletion updateCallback) = [new]
        \<and> strict_prefix currentCompletion new)"
proof -
  have swallowed: "result (P updateCallback) = Inr currentCompletion
      \<and> calls (P updateCallback) = [new] \<and> strict_prefix currentCompletion new"
    if shape: "(\<forall>cb. result (P cb) = Inr currentCompletion \<and> calls (P cb) = [])
        \<or> (\<exists>t. \<forall>cb. calls (P cb) = [currentCompletion @ t]
              \<and> result (P cb)
                  = Inr (if cb (currentCompletion @ t) = Returns then currentCompletion @ t
                         else currentCompletion))"
      and run: "result (P never_throws) = Inr new" "new \<noteq> currentCompletion"
        "updateCallback new = Throws"
    for P :: "callback \<Rightarrow> outcome"
  proof -
    from shape run(1,2) obtain t where
      t: "\<forall>cb. calls (P cb) = [currentCompletion @ t]
            \<and> result (P cb)
                = Inr (if cb (currentCompletion @ t) = Returns then currentCompletion @ t
                       else currentCompletion)"
      by auto
    from t run(1) have new: "new = currentCompletion @ t"
      by (simp add: never_throws_def)
    with run(2) have "t \<noteq> []" by auto
    with t new run(3) show ?thesis
      by (simp add: strict_prefix_def)
  qed
  show ?thesis
    using swallowed [of "strands_parseStreamingChunk N line currentCompletion", OF strands_shape]
      swallowed [of "langgraph_parseStreamingChunk N line currentCompletion"]
      langgraph_shape [of N line currentCompletion]
    by blast
qed

theorem callback_exception_swallowed_witness:
  "result (strands_parseStreamingChunk plain_numbers converse_boundary_line (js ''Hello world'')
       never_throws) = Inr (js ''Hello world'' @ js ''\<newline>\<newline>'')
   \<and> js ''Hello world'' @ js ''\<newline>\<newline>'' \<noteq> js ''Hello world''
   \<and> always_throws (js ''Hello world'' @ js ''\<newline>\<newline>'') = Throws
   \<and> result (strands_parseStreamingChunk plain_numbers converse_boundary_line (js ''Hello world'')
       always_throws) = Inr (js ''Hello world'')
   \<and> calls (strands_parseStreamingChunk plain_numbers converse_boundary_line (js ''Hello world'')
       always_throws) = [js ''Hello world'' @ js ''\<newline>\<newline>'']
   \<and> strict_prefix (js ''Hello world'') (js ''Hello world'' @ js ''\<newline>\<newline>'')
   \<and> result (langgraph_parseStreamingChunk plain_numbers langgraph_boundary_line (js ''Hello world'')
       never_throws) = Inr (js ''Hello world'' @ js ''\<newline>\<newline>'')
   \<and> result (langgraph_parseStreamingChunk plain_numbers langgraph_boundary_line (js ''Hello world'')
       always_throws) = Inr (js ''Hello world'')
   \<and> calls (langgraph_parseStreamingChunk plain_numbers langgraph_boundary_line (js ''Hello world'')
       always_throws) = [js ''Hello world'' @ js ''\<newline>\<newline>'']"
proof -
  have s: "result (strands_parseStreamingChunk plain_numbers converse_boundary_line (js ''Hello world'')
       never_throws) = Inr (js ''Hello world'' @ js ''\<newline>\<newline>'')"
    by code_simp
  have l: "result (langgraph_parseStreamingChunk plain_numbers langgraph_boundary_line (js ''Hello world'')
       never_throws) = Inr (js ''Hello world'' @ js ''\<newline>\<newline>'')"
    by code_simp
  have n: "js ''Hello world'' @ js ''\<newline>\<newline>'' \<noteq> js ''Hello world''"
    by (simp add: js_def)
  have c: "always_throws (js ''Hello world'' @ js ''\<newline>\<newline>'') = Throws"
    by (simp add: always_throws_def)
  from callback_exception_swallowed [of plain_numbers converse_boundary_line "js ''Hello world''"
      "js ''Hello world'' @ js ''\<newline>\<newline>''" always_throws]
    callback_exception_swallowed [of plain_numbers langgraph_boundary_line "js ''Hello world''"
      "js ''Hello world'' @ js ''\<newline>\<newline>''" always_throws]
    s l n c
  show ?thesis by blast
qed

end
